theory Spec2Isabelle
  imports Complex_Main "HOL-Library.Word"
begin

section \<open>Values of type float64 and the library the package calls\<close>

text \<open>
  The package computes on Go's \<^verbatim>\<open>float64\<close>. The model leaves the type of these values
  open: it is a type variable \<open>'f\<close> that only has to offer the notation \<open>0\<close>, \<open>1\<close>,
  \<open>+\<close>, \<open>-\<close>, \<open>*\<close>, \<open>/\<close>, \<open><\<close> and \<open>\<le>\<close> (the syntactic type classes, which assume no law
  at all: neither associativity nor a total order). Everything proved at this level
  therefore holds for rounded arithmetic with NaN and infinities as well as for exact
  arithmetic. What the language and its standard library add is collected in a record:
  \<^item> \<open>lit\<close>: the conversion of an untyped constant of the source to \<^verbatim>\<open>float64\<close>;
  \<^item> \<open>feq\<close>: the operator \<^verbatim>\<open>==\<close> on \<^verbatim>\<open>float64\<close>;
  \<^item> \<open>math_Pow\<close>, \<open>math_Nextafter\<close>: \<^verbatim>\<open>math.Pow\<close> and \<^verbatim>\<open>math.Nextafter\<close> of the standard
    library, which are not part of the repository.
\<close>

record 'f arith =
  lit :: "rat \<Rightarrow> 'f"
  feq :: "'f \<Rightarrow> 'f \<Rightarrow> bool"
  math_Pow :: "'f \<Rightarrow> 'f \<Rightarrow> 'f"
  math_Nextafter :: "'f \<Rightarrow> 'f \<Rightarrow> 'f"

text \<open>\<^verbatim>\<open>errors.New(msg)\<close>: an error value is its message.\<close>

datatype error = errors_New string

text \<open>Go's \<^verbatim>\<open>uint\<close>, 64 bits wide on 64-bit targets; \<open>+\<close> wraps around.\<close>

type_synonym uint = "64 word"

text \<open>
  The built-in \<^verbatim>\<open>copy(dst, src)\<close>: the first \<open>min (length dst) (length src)\<close> elements of
  \<open>dst\<close> are overwritten, the length of \<open>dst\<close> stays. \<open>store a lo hi src\<close> is
  \<^verbatim>\<open>copy(a[lo:hi], src)\<close> seen from the array \<open>a\<close>.
\<close>

definition copy_go :: "'a list \<Rightarrow> 'a list \<Rightarrow> 'a list" where
  "copy_go dst src = take (length dst) src @ drop (length src) dst"

definition store :: "'a list \<Rightarrow> nat \<Rightarrow> nat \<Rightarrow> 'a list \<Rightarrow> 'a list" where
  "store a lo hi src = take lo a @ copy_go (take (hi - lo) (drop lo a)) src @ drop hi a"

text \<open>
  The derivative evaluator \<^verbatim>\<open>dydx(x, y, f)\<close> is the caller's function. It may be a closure
  with a state of its own (type \<open>'s\<close>); it reads \<open>x\<close> and \<open>y\<close> and writes into the slice
  \<open>f\<close>, whose length it cannot change. The model hands it the present contents of \<open>f\<close>
  and copies what it returns over them.
\<close>

type_synonym ('f, 's) evaluator = "'s \<Rightarrow> 'f \<Rightarrow> 'f list \<Rightarrow> 'f list \<Rightarrow> 'f list \<times> 's"

definition call :: "('f, 's) evaluator \<Rightarrow> 's \<Rightarrow> 'f \<Rightarrow> 'f list \<Rightarrow> 'f list \<Rightarrow> 'f list \<times> 's" where
  "call dydx s x y buf = (case dydx s x y buf of (r, s') \<Rightarrow> (copy_go buf r, s'))"

section \<open>dopri: configuration, statistics, construction\<close>

record 'f Config =
  TryStep :: 'f
  MaxStep :: 'f
  AbsError :: 'f
  RelError :: 'f

definition DefaultConfig :: "('f::zero) arith \<Rightarrow> 'f Config" where
  "DefaultConfig E =
     \<lparr>TryStep = 0, MaxStep = 0, AbsError = lit E (1 / 1000000), RelError = lit E (1 / 1000)\<rparr>"

definition verify :: "('f::{zero,ord}) Config \<Rightarrow> error option" where
  "verify c =
     (if TryStep c < 0 then Some (errors_New ''the initial step should be nonnegative'')
      else if MaxStep c < 0 then Some (errors_New ''the maximal step should be nonnegative'')
      else if AbsError c \<le> 0 then
        Some (errors_New ''the absolute error tolerance should be positive'')
      else if RelError c \<le> 0 then
        Some (errors_New ''the relative error tolerance should be positive'')
      else None)"

record 'c Stats =
  Evaluations :: 'c
  Rejections :: 'c
  Steps :: 'c

record 'f Integrator =
  config :: "'f Config"

definition New :: "('f::{zero,ord}) Config \<Rightarrow> error + 'f Integrator" where
  "New c = (case verify c of Some e \<Rightarrow> Inl e | None \<Rightarrow> Inr \<lparr>config = c\<rparr>)"

section \<open>dopri: the constants of ComputeWithStats and interpolate\<close>

definition c2 :: "'f arith \<Rightarrow> 'f" where "c2 E = lit E (1 / 5)"
definition c3 :: "'f arith \<Rightarrow> 'f" where "c3 E = lit E (3 / 10)"
definition c4 :: "'f arith \<Rightarrow> 'f" where "c4 E = lit E (4 / 5)"
definition c5 :: "'f arith \<Rightarrow> 'f" where "c5 E = lit E (8 / 9)"

definition a21 :: "'f arith \<Rightarrow> 'f" where "a21 E = lit E (1 / 5)"
definition a31 :: "'f arith \<Rightarrow> 'f" where "a31 E = lit E (3 / 40)"
definition a32 :: "'f arith \<Rightarrow> 'f" where "a32 E = lit E (9 / 40)"
definition a41 :: "'f arith \<Rightarrow> 'f" where "a41 E = lit E (44 / 45)"
definition a42 :: "'f arith \<Rightarrow> 'f" where "a42 E = lit E (- 56 / 15)"
definition a43 :: "'f arith \<Rightarrow> 'f" where "a43 E = lit E (32 / 9)"
definition a51 :: "'f arith \<Rightarrow> 'f" where "a51 E = lit E (19372 / 6561)"
definition a52 :: "'f arith \<Rightarrow> 'f" where "a52 E = lit E (- 25360 / 2187)"
definition a53 :: "'f arith \<Rightarrow> 'f" where "a53 E = lit E (64448 / 6561)"
definition a54 :: "'f arith \<Rightarrow> 'f" where "a54 E = lit E (- 212 / 729)"
definition a61 :: "'f arith \<Rightarrow> 'f" where "a61 E = lit E (9017 / 3168)"
definition a62 :: "'f arith \<Rightarrow> 'f" where "a62 E = lit E (- 355 / 33)"
definition a63 :: "'f arith \<Rightarrow> 'f" where "a63 E = lit E (46732 / 5247)"
definition a64 :: "'f arith \<Rightarrow> 'f" where "a64 E = lit E (49 / 176)"
definition a65 :: "'f arith \<Rightarrow> 'f" where "a65 E = lit E (- 5103 / 18656)"
definition a71 :: "'f arith \<Rightarrow> 'f" where "a71 E = lit E (35 / 384)"
definition a73 :: "'f arith \<Rightarrow> 'f" where "a73 E = lit E (500 / 1113)"
definition a74 :: "'f arith \<Rightarrow> 'f" where "a74 E = lit E (125 / 192)"
definition a75 :: "'f arith \<Rightarrow> 'f" where "a75 E = lit E (- 2187 / 6784)"
definition a76 :: "'f arith \<Rightarrow> 'f" where "a76 E = lit E (11 / 84)"

definition e1 :: "'f arith \<Rightarrow> 'f" where "e1 E = lit E (71 / 57600)"
definition e3 :: "'f arith \<Rightarrow> 'f" where "e3 E = lit E (- 71 / 16695)"
definition e4 :: "'f arith \<Rightarrow> 'f" where "e4 E = lit E (71 / 1920)"
definition e5 :: "'f arith \<Rightarrow> 'f" where "e5 E = lit E (- 17253 / 339200)"
definition e6 :: "'f arith \<Rightarrow> 'f" where "e6 E = lit E (22 / 525)"
definition e7 :: "'f arith \<Rightarrow> 'f" where "e7 E = lit E (- 1 / 40)"

definition power :: "'f arith \<Rightarrow> 'f" where "power E = lit E (1 / 5)"

definition c11 :: "'f arith \<Rightarrow> 'f" where "c11 E = lit E 1"
definition c12 :: "'f arith \<Rightarrow> 'f" where "c12 E = lit E (- 183 / 64)"
definition c13 :: "'f arith \<Rightarrow> 'f" where "c13 E = lit E (37 / 12)"
definition c14 :: "'f arith \<Rightarrow> 'f" where "c14 E = lit E (- 145 / 128)"
definition c32 :: "'f arith \<Rightarrow> 'f" where "c32 E = lit E (1500 / 371)"
definition c33 :: "'f arith \<Rightarrow> 'f" where "c33 E = lit E (- 1000 / 159)"
definition c34 :: "'f arith \<Rightarrow> 'f" where "c34 E = lit E (1000 / 371)"
definition c42 :: "'f arith \<Rightarrow> 'f" where "c42 E = lit E (- 125 / 32)"
definition c43 :: "'f arith \<Rightarrow> 'f" where "c43 E = lit E (125 / 12)"
definition c44 :: "'f arith \<Rightarrow> 'f" where "c44 E = lit E (- 375 / 64)"
definition c52 :: "'f arith \<Rightarrow> 'f" where "c52 E = lit E (9477 / 3392)"
definition c53 :: "'f arith \<Rightarrow> 'f" where "c53 E = lit E (- 729 / 106)"
definition c54 :: "'f arith \<Rightarrow> 'f" where "c54 E = lit E (25515 / 6784)"
definition c62 :: "'f arith \<Rightarrow> 'f" where "c62 E = lit E (- 11 / 7)"
definition c63 :: "'f arith \<Rightarrow> 'f" where "c63 E = lit E (11 / 3)"
definition c64 :: "'f arith \<Rightarrow> 'f" where "c64 E = lit E (- 55 / 28)"
definition c72 :: "'f arith \<Rightarrow> 'f" where "c72 E = lit E (3 / 2)"
definition c73 :: "'f arith \<Rightarrow> 'f" where "c73 E = lit E (- 4)"
definition c74 :: "'f arith \<Rightarrow> 'f" where "c74 E = lit E (5 / 2)"

section \<open>dopri: epsilon and interpolate\<close>

definition epsilon :: "('f::{zero,one,plus,minus,uminus,ord}) arith \<Rightarrow> 'f \<Rightarrow> 'f" where
  "epsilon E x0 =
     (let x = (if x0 < 0 then - x0 else x0)
      in math_Nextafter E x (x + 1) - x)"

text \<open>
  \<open>interpolate\<close> returns the \<open>nd\<close> values it writes to \<^verbatim>\<open>ynext[0..nd-1]\<close>; \<open>f\<close> is the whole
  stage array of \<open>7 * nd\<close> values.
\<close>

definition interpolate ::
  "('f::{plus,minus,times,inverse}) arith \<Rightarrow> 'f \<Rightarrow> 'f list \<Rightarrow> 'f list \<Rightarrow> 'f \<Rightarrow> 'f \<Rightarrow> 'f list"
where
  "interpolate E x y f h xnext =
     (let nd = length y;
          s1 = (xnext - x) / h;
          s2 = s1 * s1;
          s3 = s1 * s2;
          s4 = s1 * s3
      in map (\<lambda>i.
           let f1 = f ! (0 * nd + i);
               f3 = f ! (2 * nd + i);
               f4 = f ! (3 * nd + i);
               f5 = f ! (4 * nd + i);
               f6 = f ! (5 * nd + i);
               f7 = f ! (6 * nd + i)
           in y ! i +
              h * s1 * (c11 E * f1) +
              h * s2 * (c12 E * f1 + c32 E * f3 + c42 E * f4 + c52 E * f5 + c62 E * f6 + c72 E * f7) +
              h * s3 * (c13 E * f1 + c33 E * f3 + c43 E * f4 + c53 E * f5 + c63 E * f6 + c73 E * f7) +
              h * s4 * (c14 E * f1 + c34 E * f3 + c44 E * f4 + c54 E * f5 + c64 E * f6 + c74 E * f7))
         [0..<nd])"

section \<open>dopri: the variables of ComputeWithStats\<close>

text \<open>
  The stage array \<^verbatim>\<open>f\<close> of \<open>7 * nd\<close> values is kept as its seven slices \<^verbatim>\<open>f1\<close> to \<^verbatim>\<open>f7\<close>
  of \<open>nd\<close> values each; \<open>flat\<close> is the whole array, as \<open>interpolate\<close> reads it.
\<close>

record 'f stages =
  f1 :: "'f list"
  f2 :: "'f list"
  f3 :: "'f list"
  f4 :: "'f list"
  f5 :: "'f list"
  f6 :: "'f list"
  f7 :: "'f list"

definition flat :: "'f stages \<Rightarrow> 'f list" where
  "flat F = f1 F @ f2 F @ f3 F @ f4 F @ f5 F @ f6 F @ f7 F"

text \<open>
  The local variables that ComputeWithStats assigns inside its loops (\<open>var_s\<close> is the state
  of the caller's evaluator), and the ones that are fixed once the loop starts.
\<close>

record ('f, 's) vars =
  var_x :: 'f
  var_h :: 'f
  var_hmin :: 'f
  var_y :: "'f list"
  var_ynew :: "'f list"
  var_xnew :: 'f
  var_eps :: 'f
  var_f :: "'f stages"
  var_done :: bool
  var_rejected :: bool
  var_nc :: nat
  var_ys :: "'f list"
  var_xs :: "'f list"
  var_stats :: "uint Stats"
  var_s :: 's

record ('f, 's) ctx =
  c_arith :: "'f arith"
  c_dydx :: "('f, 's) evaluator"
  c_nd :: nat
  c_nx :: nat
  c_xend :: 'f
  c_fixed :: bool
  c_relerr :: 'f
  c_threshold :: 'f
  c_hmax :: 'f

text \<open>
  What a call hands back: Go's four results, each of which can be \<^verbatim>\<open>nil\<close>; or the call
  panics on an index out of range (the grid has no point, or one point only and
  \<^verbatim>\<open>xs[1]\<close> is read).
\<close>

record 'f returned =
  ret_ys :: "'f list option"
  ret_xs :: "'f list option"
  ret_stats :: "uint Stats option"
  ret_err :: "error option"

datatype 'r outcome = Panics | Returns 'r

section \<open>dopri: one trial step and its error estimate\<close>

text \<open>The six stages of a trial step and the evaluation at the new point.\<close>

definition trial :: "('f::{zero,one,plus,minus,uminus,times,inverse,ord}, 's) ctx \<Rightarrow> ('f, 's) vars \<Rightarrow> ('f, 's) vars" where
  "trial C v =
     (let E = c_arith C; nd = c_nd C; dydx = c_dydx C;
          x = var_x v; h = var_h v; y = var_y v; F = var_f v; s = var_s v;
          z = map (\<lambda>i. y ! i + h * a21 E * f1 F ! i) [0..<nd];
          (r, s) = call dydx s (x + c2 E * h) z (f2 F);
          F = F\<lparr>f2 := r\<rparr>;
          z = map (\<lambda>i. y ! i + h * (a31 E * f1 F ! i + a32 E * f2 F ! i)) [0..<nd];
          (r, s) = call dydx s (x + c3 E * h) z (f3 F);
          F = F\<lparr>f3 := r\<rparr>;
          z = map (\<lambda>i. y ! i + h * (a41 E * f1 F ! i + a42 E * f2 F ! i + a43 E * f3 F ! i))
                [0..<nd];
          (r, s) = call dydx s (x + c4 E * h) z (f4 F);
          F = F\<lparr>f4 := r\<rparr>;
          z = map (\<lambda>i. y ! i + h * (a51 E * f1 F ! i + a52 E * f2 F ! i + a53 E * f3 F ! i +
                    a54 E * f4 F ! i)) [0..<nd];
          (r, s) = call dydx s (x + c5 E * h) z (f5 F);
          F = F\<lparr>f5 := r\<rparr>;
          z = map (\<lambda>i. y ! i + h * (a61 E * f1 F ! i + a62 E * f2 F ! i + a63 E * f3 F ! i +
                    a64 E * f4 F ! i + a65 E * f5 F ! i)) [0..<nd];
          (r, s) = call dydx s (x + h) z (f6 F);
          F = F\<lparr>f6 := r\<rparr>;
          ynew = map (\<lambda>i. y ! i + h * (a71 E * f1 F ! i + a73 E * f3 F ! i + a74 E * f4 F ! i +
                    a75 E * f5 F ! i + a76 E * f6 F ! i)) [0..<nd];
          xnew = x + h;
          (r, s) = call dydx s xnew ynew (f7 F);
          F = F\<lparr>f7 := r\<rparr>
      in v\<lparr>var_ynew := ynew, var_xnew := xnew, var_f := F, var_s := s\<rparr>)"

text \<open>The loop "Compute the relative error": its body at index \<open>i\<close>, and the loop.\<close>

definition error_at ::
  "('f::{zero,one,plus,minus,uminus,times,inverse,ord}) arith \<Rightarrow> 'f \<Rightarrow> 'f \<Rightarrow> 'f list \<Rightarrow> 'f list \<Rightarrow> 'f stages \<Rightarrow> nat \<Rightarrow> 'f \<Rightarrow> 'f"
where
  "error_at E h threshold y ynew F i \<epsilon> =
     (let scale = y ! i;
          scale = (if scale < 0 then - scale else scale);
          scale = (if ynew ! i > 0
                   then (if ynew ! i > scale then ynew ! i else scale)
                   else (if - (ynew ! i) > scale then - (ynew ! i) else scale));
          scale = (if scale < threshold then threshold else scale);
          e = e1 E * f1 F ! i + e3 E * f3 F ! i + e4 E * f4 F ! i + e5 E * f5 F ! i +
              e6 E * f6 F ! i + e7 E * f7 F ! i;
          e = (if e < 0 then - e else e);
          e = h * e / scale
      in if e > \<epsilon> then e else \<epsilon>)"

definition error_norm :: "('f::{zero,one,plus,minus,uminus,times,inverse,ord}, 's) ctx \<Rightarrow> ('f, 's) vars \<Rightarrow> 'f" where
  "error_norm C v =
     fold (error_at (c_arith C) (var_h v) (c_threshold C) (var_y v) (var_ynew v) (var_f v))
       [0..<c_nd C] 0"

section \<open>dopri: the rejection loop\<close>

text \<open>"Shrink the step size as the current one has been rejected", to the end of the body.\<close>

definition shrink :: "('f::{zero,one,plus,minus,uminus,times,inverse,ord}, 's) ctx \<Rightarrow> ('f, 's) vars \<Rightarrow> ('f, 's) vars" where
  "shrink C v =
     (let E = c_arith C; h = var_h v;
          h = (if var_rejected v then lit E (1 / 2) * h
               else (let scale = lit E (4 / 5) * math_Pow E (c_relerr C / var_eps v) (power E)
                     in if scale > lit E (1 / 10) then scale * h else lit E (1 / 10) * h));
          h = (if h < var_hmin v then var_hmin v else h)
      in v\<lparr>var_h := h, var_done := False, var_rejected := True\<rparr>)"

text \<open>
  The inner \<^verbatim>\<open>for { ... }\<close>. \<open>Inr v\<close>: the loop is left by \<^verbatim>\<open>break\<close> with the variables \<open>v\<close>;
  \<open>Inl stats\<close>: the function returns the underflow error with these statistics; \<open>None\<close>:
  the loop never ends.
\<close>

partial_function (option) attempts ::
  "('f::{zero,one,plus,minus,uminus,times,inverse,ord}, 's) ctx \<Rightarrow> ('f, 's) vars \<Rightarrow> (uint Stats + ('f, 's) vars) option"
where
  "attempts C v =
     (let v = trial C v;
          v = v\<lparr>var_stats := (var_stats v)\<lparr>Evaluations := Evaluations (var_stats v) + 6\<rparr>\<rparr>;
          v = v\<lparr>var_eps := error_norm C v\<rparr>
      in if var_eps v \<le> c_relerr C then Some (Inr v)
         else
           (let v = v\<lparr>var_stats := (var_stats v)\<lparr>Rejections := Rejections (var_stats v) + 1\<rparr>\<rparr>
            in if var_h v \<le> var_hmin v then Some (Inl (var_stats v))
               else attempts C (shrink C v)))"

declare attempts.simps [code]

section \<open>dopri: the output of an accepted step\<close>

text \<open>
  The loop \<^verbatim>\<open>for nc < nx { ... }\<close> of the fixed mode: \<open>fill_row\<close> is its body after the
  \<^verbatim>\<open>break\<close> test, \<open>fill\<close> the loop.
\<close>

definition fill_row :: "('f::{zero,one,plus,minus,uminus,times,inverse,ord}, 's) ctx \<Rightarrow> ('f, 's) vars \<Rightarrow> ('f, 's) vars" where
  "fill_row C v =
     (let nc = var_nc v; nd = c_nd C;
          ys = (if feq (c_arith C) (var_xs v ! nc) (var_xnew v)
                then store (var_ys v) (nc * nd) ((nc + 1) * nd) (var_ynew v)
                else store (var_ys v) (nc * nd) ((nc + 1) * nd)
                       (interpolate (c_arith C) (var_x v) (var_y v) (flat (var_f v))
                          (var_h v) (var_xs v ! nc)))
      in v\<lparr>var_ys := ys, var_nc := nc + 1\<rparr>)"

function fill :: "('f::{zero,one,plus,minus,uminus,times,inverse,ord}, 's) ctx \<Rightarrow> ('f, 's) vars \<Rightarrow> ('f, 's) vars" where
  "fill C v =
     (if var_nc v < c_nx C then
        (if var_xnew v - var_xs v ! var_nc v < 0 then v
         else fill C (fill_row C v))
      else v)"
  by pat_completeness auto
termination
  by (relation "measure (\<lambda>(C, v). c_nx C - var_nc v)") (auto simp: fill_row_def Let_def)

declare fill.simps [simp del]

definition emit :: "('f::{zero,one,plus,minus,uminus,times,inverse,ord}, 's) ctx \<Rightarrow> ('f, 's) vars \<Rightarrow> ('f, 's) vars" where
  "emit C v =
     (if c_fixed C then fill C v
      else v\<lparr>var_ys := var_ys v @ var_ynew v, var_xs := var_xs v @ [var_xnew v],
             var_nc := var_nc v + 1\<rparr>)"

section \<open>dopri: the step loop\<close>

text \<open>From \<^verbatim>\<open>stats.Steps++\<close> to \<^verbatim>\<open>rejected := false\<close>.\<close>

definition begin_step :: "('f::{zero,one,plus,minus,uminus,times,inverse,ord}, 's) ctx \<Rightarrow> ('f, 's) vars \<Rightarrow> ('f, 's) vars" where
  "begin_step C v =
     (let E = c_arith C;
          v = v\<lparr>var_stats := (var_stats v)\<lparr>Steps := Steps (var_stats v) + 1\<rparr>\<rparr>;
          hmin = lit E 16 * epsilon E (var_x v);
          v = v\<lparr>var_hmin := hmin\<rparr>;
          v = (if var_h v < hmin then v\<lparr>var_h := hmin\<rparr> else v);
          v = (if var_h v > c_hmax C then v\<lparr>var_h := c_hmax C\<rparr> else v);
          v = (if lit E (11 / 10) * var_h v \<ge> c_xend C - var_x v
               then v\<lparr>var_h := c_xend C - var_x v, var_done := True\<rparr> else v)
      in v\<lparr>var_rejected := False\<rparr>)"

text \<open>After \<^verbatim>\<open>if done { break }\<close>: move to the new point and "Compute a new step size".\<close>

definition advance :: "('f::{zero,one,plus,minus,uminus,times,inverse,ord}, 's) ctx \<Rightarrow> ('f, 's) vars \<Rightarrow> ('f, 's) vars" where
  "advance C v =
     (let E = c_arith C;
          v = v\<lparr>var_x := var_xnew v,
                var_f := (var_f v)\<lparr>f1 := copy_go (f1 (var_f v)) (f7 (var_f v))\<rparr>,
                var_y := copy_go (var_y v) (var_ynew v)\<rparr>
      in if var_rejected v then v
         else
           (let scale = lit E (5 / 4) * math_Pow E (var_eps v / c_relerr C) (power E)
            in if scale > lit E (1 / 5) then v\<lparr>var_h := var_h v / scale\<rparr>
               else v\<lparr>var_h := lit E 5 * var_h v\<rparr>))"

definition underflow :: error where
  "underflow = errors_New ''encountered a step-size underflow''"

text \<open>The outer \<^verbatim>\<open>for done := false; ; { ... }\<close> and the final \<^verbatim>\<open>return\<close>.\<close>

partial_function (option) steps ::
  "('f::{zero,one,plus,minus,uminus,times,inverse,ord}, 's) ctx \<Rightarrow> ('f, 's) vars \<Rightarrow> 'f returned option"
where
  "steps C v =
     (case attempts C (begin_step C v) of
        None \<Rightarrow> None
      | Some (Inl stats) \<Rightarrow>
          Some \<lparr>ret_ys = None, ret_xs = None, ret_stats = Some stats, ret_err = Some underflow\<rparr>
      | Some (Inr v) \<Rightarrow>
          (let v = emit C v
           in if var_done v
              then Some \<lparr>ret_ys = Some (var_ys v), ret_xs = Some (var_xs v),
                         ret_stats = Some (var_stats v), ret_err = None\<rparr>
              else steps C (advance C v)))"

declare steps.simps [code]

section \<open>dopri: ComputeWithStats and Compute\<close>

text \<open>"Compute the limits on the step size."\<close>

definition max_step :: "('f::{zero,one,plus,minus,uminus,times,inverse,ord}) arith \<Rightarrow> 'f Config \<Rightarrow> 'f \<Rightarrow> 'f \<Rightarrow> 'f" where
  "max_step E cfg x xend =
     (let hmax = MaxStep cfg
      in if feq E hmax 0 then lit E (1 / 10) * (xend - x) else hmax)"

text \<open>
  "Choose the initial step size." The body of the loop over the components, and the
  choice; \<open>xs ! 1\<close> is read only when \<^verbatim>\<open>TryStep == 0\<close>.
\<close>

definition scale_at :: "('f::{zero,one,plus,minus,uminus,times,inverse,ord}) \<Rightarrow> 'f list \<Rightarrow> 'f list \<Rightarrow> nat \<Rightarrow> 'f \<Rightarrow> 'f" where
  "scale_at threshold y f i scale =
     (let s = y ! i;
          s = (if s < 0 then - s else s);
          s = (if s < threshold then threshold else s);
          s = f ! i / s;
          s = (if s < 0 then - s else s)
      in if s > scale then s else scale)"

definition initial_step ::
  "('f::{zero,one,plus,minus,uminus,times,inverse,ord}) arith \<Rightarrow> 'f Config \<Rightarrow> 'f list \<Rightarrow> 'f \<Rightarrow> 'f \<Rightarrow> 'f list \<Rightarrow> 'f list \<Rightarrow> 'f \<Rightarrow> 'f \<Rightarrow> nat \<Rightarrow> 'f"
where
  "initial_step E cfg xs x hmax y f threshold relerr nd =
     (let h = TryStep cfg
      in if feq E h 0 then
           (let h = xs ! 1 - x;
                h = (if h > hmax then hmax else h);
                scale = fold (scale_at threshold y f) [0..<nd] 0;
                scale = scale / (lit E (4 / 5) * math_Pow E relerr (power E))
            in if h * scale > 1 then 1 / scale else h)
         else h)"

text \<open>
  ComputeWithStats up to the loop: the buffers, the first evaluation, the limits and the
  first output row. The two reads \<^verbatim>\<open>xs[0]\<close> and \<^verbatim>\<open>xs[1]\<close> that can panic are guarded in
  \<open>ComputeWithStats\<close> below.
\<close>

definition prepare ::
  "('f::{zero,one,plus,minus,uminus,times,inverse,ord}) arith \<Rightarrow> 'f Integrator \<Rightarrow> ('f, 's) evaluator \<Rightarrow> 's \<Rightarrow> 'f list \<Rightarrow> 'f list \<Rightarrow>
     ('f, 's) ctx \<times> ('f, 's) vars"
where
  "prepare E self dydx s0 y0 xs =
     (let stats = \<lparr>Evaluations = 0, Rejections = 0, Steps = 0\<rparr>;
          nd = length y0; nx = length xs; nc = 0;
          y = replicate nd 0;
          ynew = replicate nd 0;
          F = \<lparr>f1 = replicate nd 0, f2 = replicate nd 0, f3 = replicate nd 0,
               f4 = replicate nd 0, f5 = replicate nd 0, f6 = replicate nd 0,
               f7 = replicate nd 0\<rparr>;
          x = xs ! 0;
          xend = xs ! (nx - 1);
          fixed = nx > 2;
          y = copy_go y y0;
          (r, s) = call dydx s0 x y (f1 F);
          F = F\<lparr>f1 := r\<rparr>;
          stats = stats\<lparr>Evaluations := Evaluations stats + 1\<rparr>;
          cfg = config self;
          abserr = AbsError cfg;
          relerr = RelError cfg;
          threshold = abserr / relerr;
          hmax = max_step E cfg x xend;
          h = initial_step E cfg xs x hmax y (f1 F) threshold relerr nd;
          ys = (if fixed then copy_go (replicate (nx * nd) 0) y0 else [] @ y0);
          xs = (if fixed then xs else [] @ [x]);
          nc = nc + 1
      in (\<lparr>c_arith = E, c_dydx = dydx, c_nd = nd, c_nx = nx, c_xend = xend,
           c_fixed = fixed, c_relerr = relerr, c_threshold = threshold, c_hmax = hmax\<rparr>,
          \<lparr>var_x = x, var_h = h, var_hmin = 0, var_y = y, var_ynew = ynew,
           var_xnew = 0, var_eps = 0, var_f = F, var_done = False,
           var_rejected = False, var_nc = nc, var_ys = ys, var_xs = xs,
           var_stats = stats, var_s = s\<rparr>))"

definition ComputeWithStats ::
  "('f::{zero,one,plus,minus,uminus,times,inverse,ord}) arith \<Rightarrow> 'f Integrator \<Rightarrow> ('f, 's) evaluator \<Rightarrow> 's \<Rightarrow> 'f list \<Rightarrow> 'f list \<Rightarrow>
     'f returned outcome option"
where
  "ComputeWithStats E self dydx s0 y0 xs =
     (let nx = length xs
      in if nx = 0 then Some Panics
         else if feq E (TryStep (config self)) 0 \<and> nx < 2 then Some Panics
         else (case prepare E self dydx s0 y0 xs of
                 (C, v) \<Rightarrow> map_option Returns (steps C v)))"

text \<open>Compute drops the statistics.\<close>

definition Compute ::
  "('f::{zero,one,plus,minus,uminus,times,inverse,ord}) arith \<Rightarrow> 'f Integrator \<Rightarrow> ('f, 's) evaluator \<Rightarrow> 's \<Rightarrow> 'f list \<Rightarrow> 'f list \<Rightarrow>
     ('f list option \<times> 'f list option \<times> error option) outcome option"
where
  "Compute E self dydx s0 y0 xs =
     (case ComputeWithStats E self dydx s0 y0 xs of
        None \<Rightarrow> None
      | Some Panics \<Rightarrow> Some Panics
      | Some (Returns r) \<Rightarrow> Some (Returns (ret_ys r, ret_xs r, ret_err r)))"

section \<open>Inputs for running the program\<close>

text \<open>
  To run the program on concrete inputs the open parts need values. \<open>exact\<close> computes with
  rationals and no rounding. Its \<open>math_Nextafter\<close> adds \<open>2\<^sup>-\<^sup>5\<^sup>2\<close>, the distance from a
  binary64 number in \<open>[1, 2)\<close> to the next one, so that \<open>epsilon x\<close> is what the program sees
  for \<open>1 \<le> x < 2\<close>; the runs below integrate from 1 to 2. Its \<open>math_Pow\<close> is the fifth root
  (the program calls \<^verbatim>\<open>math.Pow\<close> with the exponent \<open>power\<close> only), rounded down to a multiple
  of \<open>2\<^sup>-\<^sup>2\<^sup>4\<close>.
\<close>

function bits :: "int \<Rightarrow> nat" where
  "bits n = (if n \<le> 0 then 0 else Suc (bits (n div 2)))"
  by pat_completeness auto
termination
  by (relation "measure nat") auto

declare bits.simps [simp del]

fun iroot5 :: "int \<Rightarrow> int \<Rightarrow> nat \<Rightarrow> int" where
  "iroot5 n r 0 = (if (r + 1) ^ 5 \<le> n then r + 1 else r)"
| "iroot5 n r (Suc k) = iroot5 n (if (r + 2 ^ Suc k) ^ 5 \<le> n then r + 2 ^ Suc k else r) k"

definition root5 :: "rat \<Rightarrow> rat" where
  "root5 q =
     (if q \<le> 0 then 0
      else (let n = \<lfloor>q * 2 ^ 120\<rfloor> in of_int (iroot5 n 0 (bits n div 5 + 1)) / 2 ^ 24))"

definition exact :: "rat arith" where
  "exact = \<lparr>lit = (\<lambda>q. q), feq = (=), math_Pow = (\<lambda>x y. root5 x),
            math_Nextafter = (\<lambda>x y. x + 1 / 2 ^ 52)\<rparr>"

text \<open>
  An evaluator without state: every component of the derivative is \<open>K\<close> to the right of
  \<open>d\<close> and 0 up to \<open>d\<close>.
\<close>

definition jump :: "rat \<Rightarrow> rat \<Rightarrow> (rat, unit) evaluator" where
  "jump d K s x y f = (map (\<lambda>_. if x > d then K else 0) y, s)"

text \<open>
  Three configurations: a first step of 1, of one half, and one below \<open>hmin\<close>.
\<close>

definition sample_config :: "rat Config" where
  "sample_config = \<lparr>TryStep = 1, MaxStep = 1, AbsError = 1 / 1000, RelError = 1 / 1000\<rparr>"

definition half_config :: "rat Config" where
  "half_config = \<lparr>TryStep = 1 / 2, MaxStep = 1 / 2, AbsError = 1 / 1000, RelError = 1 / 1000\<rparr>"

definition tiny_config :: "rat Config" where
  "tiny_config = \<lparr>TryStep = 1 / 2 ^ 50, MaxStep = 1, AbsError = 1 / 1000, RelError = 1 / 1000\<rparr>"

text \<open>
  Runs with one equation and \<open>y0 = [0]\<close>, three from \<open>x = 1\<close> to \<open>x = 2\<close> and one backwards
  from \<open>x = 3/2\<close> to \<open>x = 1\<close>; for each, the constants of its loop and what it returns:
  \<^item> \<open>free_run\<close>: the grid \<open>[1, 2]\<close>, the derivative jumps from 0 to 10 right after
    \<open>x = 1\<close>, \<open>sample_config\<close>;
  \<^item> \<open>fixed_run\<close>: the grid \<open>[1, 5/4, 3/2, 2]\<close>, the derivative is 1, \<open>half_config\<close>;
  \<^item> \<open>underflow_run\<close>: the grid \<open>[1, 2]\<close>, the derivative jumps from 0 to \<open>10\<^sup>1\<^sup>5\<close>,
    \<open>tiny_config\<close>;
  \<^item> \<open>down_run\<close>: the grid \<open>[3/2, 1]\<close>, the derivative jumps from 0 to 10 right after
    \<open>x = 1\<close>, \<open>sample_config\<close>.
\<close>

text \<open>
  The comparisons of \<^verbatim>\<open>float64\<close> on NaN and on finite values: every comparison with NaN is
  false. This is all of \<^verbatim>\<open>float64\<close> that \<open>verify\<close> uses.
\<close>

datatype float64 = NaN | Finite rat

instantiation float64 :: "{zero, ord}"
begin

definition zero_float64 :: float64 where
  "zero_float64 = Finite 0"

definition less_float64 :: "float64 \<Rightarrow> float64 \<Rightarrow> bool" where
  "less_float64 a b =
     (case a of NaN \<Rightarrow> False | Finite x \<Rightarrow> (case b of NaN \<Rightarrow> False | Finite y \<Rightarrow> x < y))"

definition less_eq_float64 :: "float64 \<Rightarrow> float64 \<Rightarrow> bool" where
  "less_eq_float64 a b =
     (case a of NaN \<Rightarrow> False | Finite x \<Rightarrow> (case b of NaN \<Rightarrow> False | Finite y \<Rightarrow> x \<le> y))"

instance ..

end

text \<open>The default configuration with a relative tolerance that is NaN.\<close>

definition nan_config :: "float64 Config" where
  "nan_config =
     \<lparr>TryStep = 0, MaxStep = 0, AbsError = Finite (1 / 1000000), RelError = NaN\<rparr>"

text \<open>
  The arithmetic of \<^verbatim>\<open>float64\<close> as far as NaN goes: an operation with a NaN operand is NaN,
  and finite values are computed as rationals, without rounding. There are no infinities
  here, a quotient by zero is NaN; the run below does not divide by zero.
\<close>

instantiation float64 :: "{one, plus, minus, uminus, times, inverse}"
begin

definition one_float64 :: float64 where
  "one_float64 = Finite 1"

definition plus_float64 :: "float64 \<Rightarrow> float64 \<Rightarrow> float64" where
  "plus_float64 a b =
     (case a of NaN \<Rightarrow> NaN | Finite x \<Rightarrow> (case b of NaN \<Rightarrow> NaN | Finite y \<Rightarrow> Finite (x + y)))"

definition minus_float64 :: "float64 \<Rightarrow> float64 \<Rightarrow> float64" where
  "minus_float64 a b =
     (case a of NaN \<Rightarrow> NaN | Finite x \<Rightarrow> (case b of NaN \<Rightarrow> NaN | Finite y \<Rightarrow> Finite (x - y)))"

definition uminus_float64 :: "float64 \<Rightarrow> float64" where
  "uminus_float64 a = (case a of NaN \<Rightarrow> NaN | Finite x \<Rightarrow> Finite (- x))"

definition times_float64 :: "float64 \<Rightarrow> float64 \<Rightarrow> float64" where
  "times_float64 a b =
     (case a of NaN \<Rightarrow> NaN | Finite x \<Rightarrow> (case b of NaN \<Rightarrow> NaN | Finite y \<Rightarrow> Finite (x * y)))"

definition divide_float64 :: "float64 \<Rightarrow> float64 \<Rightarrow> float64" where
  "divide_float64 a b =
     (case a of NaN \<Rightarrow> NaN
      | Finite x \<Rightarrow>
          (case b of NaN \<Rightarrow> NaN | Finite y \<Rightarrow> if y = 0 then NaN else Finite (x / y)))"

definition inverse_float64 :: "float64 \<Rightarrow> float64" where
  "inverse_float64 a =
     (case a of NaN \<Rightarrow> NaN | Finite x \<Rightarrow> if x = 0 then NaN else Finite (1 / x))"

instance ..

end







definition free_ctx :: "(rat, unit) ctx" where
  "free_ctx =
     \<lparr>c_arith = exact, c_dydx = jump 1 10, c_nd = 1, c_nx = 2, c_xend = 2,
      c_fixed = False, c_relerr = 1 / 1000, c_threshold = 1, c_hmax = 1\<rparr>"

definition free_result :: "rat returned" where
  "free_result =
     \<lparr>ret_ys = Some [0, 1836351099 / 4294967296, 3856863483 / 4294967296, 13959425403 / 4294967296, 42765511675 / 4294967296],
       ret_xs = Some [1, 351329573 / 335544320, 183557413 / 167772160, 446041091 / 335544320, 2],
       ret_stats = Some \<lparr>Evaluations = 55, Rejections = 5, Steps = 4\<rparr>,
       ret_err = None\<rparr>"

definition free_start :: "(rat, unit) vars" where
  "free_start =
     \<lparr>var_x = 1, var_h = 1, var_hmin = 0,
      var_y = [0], var_ynew = [0], var_xnew = 0, var_eps = 0,
      var_f = \<lparr>f1 = [0], f2 = [0], f3 = [0], f4 = [0], f5 = [0], f6 = [0], f7 = [0]\<rparr>,
      var_done = False, var_rejected = False, var_nc = 1, var_ys = [0],
      var_xs = [1],
      var_stats = \<lparr>Evaluations = 1, Rejections = 0, Steps = 0\<rparr>, var_s = ()\<rparr>"

definition free_accepted :: "(rat, unit) vars" where
  "free_accepted =
     \<lparr>var_x = 1, var_h = 15785253 / 335544320, var_hmin = 1 / 281474976710656,
      var_y = [0], var_ynew = [1836351099 / 4294967296], var_xnew = 351329573 / 335544320, var_eps = 124528107 / 214748364800,
      var_f = \<lparr>f1 = [0], f2 = [10], f3 = [10], f4 = [10], f5 = [10], f6 = [10], f7 = [10]\<rparr>,
      var_done = False, var_rejected = True, var_nc = 1, var_ys = [0],
      var_xs = [1],
      var_stats = \<lparr>Evaluations = 37, Rejections = 5, Steps = 1\<rparr>, var_s = ()\<rparr>"

definition fixed_ctx :: "(rat, unit) ctx" where
  "fixed_ctx =
     \<lparr>c_arith = exact, c_dydx = jump 0 1, c_nd = 1, c_nx = 4, c_xend = 2,
      c_fixed = True, c_relerr = 1 / 1000, c_threshold = 1, c_hmax = 1 / 2\<rparr>"

definition fixed_result :: "rat returned" where
  "fixed_result =
     \<lparr>ret_ys = Some [0, 1 / 4, 1 / 2, 1],
       ret_xs = Some [1, 5 / 4, 3 / 2, 2],
       ret_stats = Some \<lparr>Evaluations = 13, Rejections = 0, Steps = 2\<rparr>,
       ret_err = None\<rparr>"

definition fixed_start :: "(rat, unit) vars" where
  "fixed_start =
     \<lparr>var_x = 1, var_h = 1 / 2, var_hmin = 0,
      var_y = [0], var_ynew = [0], var_xnew = 0, var_eps = 0,
      var_f = \<lparr>f1 = [1], f2 = [0], f3 = [0], f4 = [0], f5 = [0], f6 = [0], f7 = [0]\<rparr>,
      var_done = False, var_rejected = False, var_nc = 1, var_ys = [0, 0, 0, 0],
      var_xs = [1, 5 / 4, 3 / 2, 2],
      var_stats = \<lparr>Evaluations = 1, Rejections = 0, Steps = 0\<rparr>, var_s = ()\<rparr>"

definition fixed_accepted :: "(rat, unit) vars" where
  "fixed_accepted =
     \<lparr>var_x = 1, var_h = 1 / 2, var_hmin = 1 / 281474976710656,
      var_y = [0], var_ynew = [1 / 2], var_xnew = 3 / 2, var_eps = 0,
      var_f = \<lparr>f1 = [1], f2 = [1], f3 = [1], f4 = [1], f5 = [1], f6 = [1], f7 = [1]\<rparr>,
      var_done = False, var_rejected = False, var_nc = 1, var_ys = [0, 0, 0, 0],
      var_xs = [1, 5 / 4, 3 / 2, 2],
      var_stats = \<lparr>Evaluations = 7, Rejections = 0, Steps = 1\<rparr>, var_s = ()\<rparr>"

definition underflow_ctx :: "(rat, unit) ctx" where
  "underflow_ctx =
     \<lparr>c_arith = exact, c_dydx = jump 1 (10 ^ 15), c_nd = 1, c_nx = 2, c_xend = 2,
      c_fixed = False, c_relerr = 1 / 1000, c_threshold = 1, c_hmax = 1\<rparr>"

definition underflow_result :: "rat returned" where
  "underflow_result =
     \<lparr>ret_ys = None,
       ret_xs = None,
       ret_stats = Some \<lparr>Evaluations = 7, Rejections = 1, Steps = 1\<rparr>,
       ret_err = Some underflow\<rparr>"


definition down_ctx :: "(rat, unit) ctx" where
  "down_ctx =
     \<lparr>c_arith = exact, c_dydx = jump 1 10, c_nd = 1, c_nx = 2, c_xend = 1,
      c_fixed = False, c_relerr = 1 / 1000, c_threshold = 1, c_hmax = 1\<rparr>"

definition down_result :: "rat returned" where
  "down_result =
     \<lparr>ret_ys = Some [0, - (365 / 84)],
       ret_xs = Some [3 / 2, 1],
       ret_stats = Some \<lparr>Evaluations = 7, Rejections = 0, Steps = 1\<rparr>,
       ret_err = None\<rparr>"


section \<open>Invariants of the statistics\<close>

text \<open>
  \<open>settled\<close> holds of the counters whenever no trial step is under way, \<open>pending\<close> from
  \<^verbatim>\<open>stats.Steps++\<close> (or \<^verbatim>\<open>stats.Rejections++\<close>) to the next \<^verbatim>\<open>stats.Evaluations += 6\<close>.
  Both are equations of \<^verbatim>\<open>uint\<close>, where \<open>+\<close> and \<open>*\<close> wrap around.
\<close>

definition settled :: "uint Stats \<Rightarrow> bool" where
  "settled st \<longleftrightarrow> Evaluations st = 1 + 6 * (Steps st + Rejections st)"

definition pending :: "uint Stats \<Rightarrow> bool" where
  "pending st \<longleftrightarrow> Evaluations st + 6 = 1 + 6 * (Steps st + Rejections st)"

definition succeeded :: "'f returned \<Rightarrow> bool" where
  "succeeded r \<longleftrightarrow>
     (\<exists>ys xs st. r = \<lparr>ret_ys = Some ys, ret_xs = Some xs, ret_stats = Some st, ret_err = None\<rparr> \<and>
        settled st)"

definition underflowed :: "'f returned \<Rightarrow> bool" where
  "underflowed r \<longleftrightarrow>
     (\<exists>st. r = \<lparr>ret_ys = None, ret_xs = None, ret_stats = Some st, ret_err = Some underflow\<rparr> \<and>
        pending st)"

section \<open>The shape of the variables and the rows of the output\<close>

text \<open>
  \<open>row nd ys k\<close> is the slice \<^verbatim>\<open>ys[k*nd:(k+1)*nd]\<close>. \<open>shaped\<close> collects the lengths that
  ComputeWithStats gives its slices in the fixed mode and keeps: \<open>nd\<close> values in \<open>y\<close>,
  \<open>ynew\<close> and each stage, \<open>nx\<close> rows in \<open>ys\<close>, the grid in \<open>xs\<close>, and a cursor \<open>nc\<close> that is
  at most \<open>nx\<close>. \<open>filled C v k\<close> is what the loop body \<open>fill_row\<close> writes to the row of the
  grid point \<open>k\<close>.
\<close>

definition row :: "nat \<Rightarrow> 'a list \<Rightarrow> nat \<Rightarrow> 'a list" where
  "row nd ys k = take nd (drop (k * nd) ys)"

definition shaped :: "('f, 's) ctx \<Rightarrow> ('f, 's) vars \<Rightarrow> bool" where
  "shaped C v \<longleftrightarrow>
     length (var_y v) = c_nd C \<and> length (var_ynew v) = c_nd C \<and>
     length (var_ys v) = c_nx C * c_nd C \<and> length (var_xs v) = c_nx C \<and>
     var_nc v \<le> c_nx C \<and>
     length (f1 (var_f v)) = c_nd C \<and> length (f2 (var_f v)) = c_nd C \<and>
     length (f3 (var_f v)) = c_nd C \<and> length (f4 (var_f v)) = c_nd C \<and>
     length (f5 (var_f v)) = c_nd C \<and> length (f6 (var_f v)) = c_nd C \<and>
     length (f7 (var_f v)) = c_nd C"

definition filled :: "('f::{plus,minus,times,inverse}, 's) ctx \<Rightarrow> ('f, 's) vars \<Rightarrow> nat \<Rightarrow> 'f list" where
  "filled C v k =
     (if feq (c_arith C) (var_xs v ! k) (var_xnew v) then var_ynew v
      else interpolate (c_arith C) (var_x v) (var_y v) (flat (var_f v)) (var_h v) (var_xs v ! k))"

section \<open>The parts of a trial step by name\<close>

text \<open>
  The body of the rejection loop up to the test \<^verbatim>\<open>if \<epsilon> <= relerr\<close> (\<open>estimate\<close>), and the
  statement \<^verbatim>\<open>stats.Rejections++\<close> (\<open>reject\<close>); \<open>attempts_unfold\<close> below reads the loop
  in these terms.
\<close>

definition estimate ::
  "('f::{zero,one,plus,minus,uminus,times,inverse,ord}, 's) ctx \<Rightarrow> ('f, 's) vars \<Rightarrow> ('f, 's) vars"
where
  "estimate C v =
     (let v = trial C v;
          v = v\<lparr>var_stats := (var_stats v)\<lparr>Evaluations := Evaluations (var_stats v) + 6\<rparr>\<rparr>
      in v\<lparr>var_eps := error_norm C v\<rparr>)"

definition reject :: "('f, 's) vars \<Rightarrow> ('f, 's) vars" where
  "reject v = v\<lparr>var_stats := (var_stats v)\<lparr>Rejections := Rejections (var_stats v) + 1\<rparr>\<rparr>"

text \<open>
  The words of the specification for the comparisons that the code writes out: the larger
  and the smaller of two values and the absolute value, each by one comparison (on
  \<^verbatim>\<open>float64\<close> a comparison with NaN is false, so \<open>fmax a b\<close> and \<open>fmin a b\<close> are \<open>a\<close> when
  one of them is NaN). \<open>fabs_pos\<close> is the absolute value as the code takes it of
  \<^verbatim>\<open>ynew[i]\<close>, by the test \<^verbatim>\<open>ynew[i] > 0\<close>. \<open>component_error\<close> is the error of one component
  as the specification writes it.
\<close>

definition fmax :: "'f::ord \<Rightarrow> 'f \<Rightarrow> 'f" where
  "fmax a b = (if a < b then b else a)"

definition fmin :: "'f::ord \<Rightarrow> 'f \<Rightarrow> 'f" where
  "fmin a b = (if b < a then b else a)"

definition fabs :: "'f::{zero,uminus,ord} \<Rightarrow> 'f" where
  "fabs a = (if a < 0 then - a else a)"

definition fabs_pos :: "'f::{zero,uminus,ord} \<Rightarrow> 'f" where
  "fabs_pos a = (if 0 < a then a else - a)"


section \<open>What the parts of a step leave alone\<close>

lemmas stage_consts =
  c2_def c3_def c4_def c5_def a21_def a31_def a32_def a41_def a42_def a43_def a51_def a52_def
  a53_def a54_def a61_def a62_def a63_def a64_def a65_def a71_def a73_def a74_def a75_def
  a76_def

lemmas error_consts = e1_def e3_def e4_def e5_def e6_def e7_def

lemmas dense_consts =
  c11_def c12_def c13_def c14_def c32_def c33_def c34_def c42_def c43_def c44_def c52_def
  c53_def c54_def c62_def c63_def c64_def c72_def c73_def c74_def

lemma trial_keeps:
  "var_stats (trial C v) = var_stats v"
  "var_h (trial C v) = var_h v"
  "var_hmin (trial C v) = var_hmin v"
  "var_done (trial C v) = var_done v"
  "var_rejected (trial C v) = var_rejected v"
  "var_x (trial C v) = var_x v"
  "var_y (trial C v) = var_y v"
  "var_nc (trial C v) = var_nc v"
  "var_ys (trial C v) = var_ys v"
  "var_xs (trial C v) = var_xs v"
  by (simp_all add: trial_def Let_def split: prod.split)

lemma shrink_keeps:
  "var_stats (shrink C v) = var_stats v"
  "var_hmin (shrink C v) = var_hmin v"
  "var_x (shrink C v) = var_x v"
  "var_y (shrink C v) = var_y v"
  "var_nc (shrink C v) = var_nc v"
  "var_ys (shrink C v) = var_ys v"
  "var_xs (shrink C v) = var_xs v"
  "var_f (shrink C v) = var_f v"
  by (simp_all add: shrink_def Let_def)

section \<open>The statistics of every call that returns\<close>

lemma attempts_stats:
  "attempts C v = Some r \<Longrightarrow> pending (var_stats v) \<Longrightarrow>
     (case r of Inl st \<Rightarrow> pending st | Inr v' \<Rightarrow> settled (var_stats v'))"
proof (induction C v r rule: attempts.raw_induct [rotated, consumes 1])
  case (1 rec C v r)
  let ?v1 = "trial C v"
  let ?v2 = "?v1\<lparr>var_stats := (var_stats ?v1)\<lparr>Evaluations := Evaluations (var_stats ?v1) + 6\<rparr>\<rparr>"
  let ?v3 = "?v2\<lparr>var_eps := error_norm C ?v2\<rparr>"
  let ?v4 = "?v3\<lparr>var_stats := (var_stats ?v3)\<lparr>Rejections := Rejections (var_stats ?v3) + 1\<rparr>\<rparr>"
  from "1.hyps" have run:
    "(if var_eps ?v3 \<le> c_relerr C then Some (Inr ?v3)
      else if var_h ?v4 \<le> var_hmin ?v4 then Some (Inl (var_stats ?v4))
      else rec C (shrink C ?v4)) = Some r"
    by (simp only: Let_def)
  have s3: "settled (var_stats ?v3)"
    using "1.prems" by (simp add: settled_def pending_def trial_keeps)
  have p4: "pending (var_stats ?v4)"
    using s3 by (simp add: settled_def pending_def algebra_simps)
  show ?case
  proof (cases "var_eps ?v3 \<le> c_relerr C")
    case True
    with run s3 show ?thesis by auto
  next
    case False
    note rejected = this
    show ?thesis
    proof (cases "var_h ?v4 \<le> var_hmin ?v4")
      case True
      with run rejected p4 show ?thesis by auto
    next
      case False
      with run rejected have "rec C (shrink C ?v4) = Some r" by simp
      moreover have "pending (var_stats (shrink C ?v4))"
        using p4 by (simp only: shrink_keeps)
      ultimately show ?thesis by (rule "1.IH")
    qed
  qed
qed


lemma fill_row_keeps:
  "var_stats (fill_row C v) = var_stats v"
  "var_done (fill_row C v) = var_done v"
  "var_xs (fill_row C v) = var_xs v"
  "var_xnew (fill_row C v) = var_xnew v"
  "var_ynew (fill_row C v) = var_ynew v"
  "var_x (fill_row C v) = var_x v"
  "var_y (fill_row C v) = var_y v"
  "var_h (fill_row C v) = var_h v"
  "var_f (fill_row C v) = var_f v"
  "var_nc (fill_row C v) = var_nc v + 1"
  by (simp_all add: fill_row_def Let_def)

lemma fill_keeps:
  "var_stats (fill C v) = var_stats v \<and> var_done (fill C v) = var_done v \<and>
   var_xs (fill C v) = var_xs v"
proof (induction C v rule: fill.induct)
  case (1 C v)
  show ?case
    by (subst (1 2 3) fill.simps) (simp add: "1.IH" fill_row_keeps)
qed

lemma emit_keeps:
  "var_stats (emit C v) = var_stats v"
  "var_done (emit C v) = var_done v"
  by (simp_all add: emit_def fill_keeps)

lemma advance_keeps:
  "var_stats (advance C v) = var_stats v"
  by (simp add: advance_def Let_def)

lemma begin_step_stats:
  "var_stats (begin_step C v) = (var_stats v)\<lparr>Steps := Steps (var_stats v) + 1\<rparr>"
  by (simp add: begin_step_def Let_def)

lemma begin_step_pending:
  "settled (var_stats v) \<Longrightarrow> pending (var_stats (begin_step C v))"
  by (simp add: begin_step_stats settled_def pending_def algebra_simps)

lemma steps_result:
  "steps C v = Some r \<Longrightarrow> settled (var_stats v) \<Longrightarrow> succeeded r \<or> underflowed r"
proof (induction C v r rule: steps.raw_induct [rotated, consumes 1])
  case (1 rec C v r)
  have p: "pending (var_stats (begin_step C v))"
    using "1.prems" by (rule begin_step_pending)
  show ?case
  proof (cases "attempts C (begin_step C v)")
    case None
    with "1.hyps" show ?thesis by simp
  next
    case (Some a)
    show ?thesis
    proof (cases a)
      case (Inl st)
      with Some p have "pending st"
        using attempts_stats by fastforce
      moreover from "1.hyps" Some Inl
      have "r = \<lparr>ret_ys = None, ret_xs = None, ret_stats = Some st, ret_err = Some underflow\<rparr>"
        by simp
      ultimately show ?thesis by (simp add: underflowed_def)
    next
      case (Inr w)
      with Some p have s: "settled (var_stats w)"
        using attempts_stats by fastforce
      show ?thesis
      proof (cases "var_done (emit C w)")
        case True
        with "1.hyps" Some Inr
        have "r = \<lparr>ret_ys = Some (var_ys (emit C w)), ret_xs = Some (var_xs (emit C w)),
                   ret_stats = Some (var_stats (emit C w)), ret_err = None\<rparr>"
          by (simp add: Let_def)
        with s show ?thesis by (simp add: succeeded_def emit_keeps)
      next
        case False
        with "1.hyps" Some Inr have "rec C (advance C (emit C w)) = Some r"
          by (simp add: Let_def)
        moreover have "settled (var_stats (advance C (emit C w)))"
          using s by (simp add: advance_keeps emit_keeps)
        ultimately show ?thesis by (rule "1.IH")
      qed
    qed
  qed
qed

lemma prepare_stats:
  "var_stats (snd (prepare E self dydx s0 y0 xs)) = \<lparr>Evaluations = 1, Rejections = 0, Steps = 0\<rparr>"
  by (simp add: prepare_def Let_def split: prod.split)

lemma ComputeWithStats_steps:
  assumes "ComputeWithStats E self dydx s0 y0 xs = Some (Returns r)"
  shows "steps (fst (prepare E self dydx s0 y0 xs)) (snd (prepare E self dydx s0 y0 xs)) = Some r"
  using assms by (auto simp: ComputeWithStats_def Let_def split: if_splits prod.splits)

lemma ComputeWithStats_result:
  assumes "ComputeWithStats E self dydx s0 y0 xs = Some (Returns r)"
  shows "succeeded r \<or> underflowed r"
proof -
  have "settled (var_stats (snd (prepare E self dydx s0 y0 xs)))"
    by (simp add: prepare_stats settled_def)
  with ComputeWithStats_steps [OF assms] show ?thesis by (rule steps_result)
qed

section \<open>The counters as natural numbers\<close>

lemma settled_unat:
  assumes "settled st" and "1 + 6 * (unat (Steps st) + unat (Rejections st)) < 2 ^ 64"
  shows "unat (Evaluations st) = 1 + 6 * (unat (Steps st) + unat (Rejections st))"
proof -
  let ?n = "1 + 6 * (unat (Steps st) + unat (Rejections st))"
  have "Evaluations st = of_nat ?n"
    using assms(1) by (simp add: settled_def)
  then have "unat (Evaluations st) = ?n mod 2 ^ 64"
    by (simp only: unat_of_nat) simp
  with assms(2) show ?thesis by simp
qed

lemma pending_unat:
  assumes "pending st" and "1 + 6 * (unat (Steps st) + unat (Rejections st)) < 2 ^ 64"
    and "Rejections st \<noteq> 0"
  shows "unat (Evaluations st) + 5 = 6 * (unat (Steps st) + unat (Rejections st))"
proof -
  let ?n = "1 + 6 * (unat (Steps st) + unat (Rejections st))"
  have pos: "0 < unat (Rejections st)"
    using assms(3) by (simp add: unat_gt_0)
  then have six: "6 \<le> ?n" by simp
  have "Evaluations st + 6 = of_nat ?n"
    using assms(1) by (simp add: pending_def)
  then have "Evaluations st = of_nat ?n - 6"
    by (simp add: algebra_simps)
  also have "\<dots> = of_nat (?n - 6)"
    using six by (simp only: of_nat_diff) simp
  finally have "unat (Evaluations st) = (?n - 6) mod 2 ^ 64"
    by (simp only: unat_of_nat) simp
  moreover have "?n - 6 < 2 ^ 64"
    using assms(2) by simp
  ultimately have "unat (Evaluations st) = ?n - 6" by simp
  with six show ?thesis by simp
qed

section \<open>Lengths and rows in the fixed mode\<close>

lemma length_copy_go: "length (copy_go dst src) = length dst"
  by (simp add: copy_go_def)

lemma copy_go_same: "length src = length dst \<Longrightarrow> copy_go dst src = src"
  by (simp add: copy_go_def)

lemma store_at:
  assumes "length src = nd" and "lo + nd \<le> length ys"
  shows "store ys lo (lo + nd) src = take lo ys @ src @ drop (lo + nd) ys"
proof -
  have "length (take (lo + nd - lo) (drop lo ys)) = nd"
    using assms(2) by simp
  then show ?thesis
    using assms(1) by (simp add: store_def copy_go_same)
qed

lemma store_row:
  assumes "length src = nd" and "(k + 1) * nd \<le> length ys"
  shows "store ys (k * nd) ((k + 1) * nd) src = take (k * nd) ys @ src @ drop (k * nd + nd) ys"
proof -
  have eq: "(k + 1) * nd = k * nd + nd" by simp
  have "k * nd + nd \<le> length ys" using assms(2) by simp
  from store_at [OF assms(1) this] show ?thesis
    by (simp only: eq)
qed

lemma length_store_row:
  assumes "length src = nd" and "(k + 1) * nd \<le> length ys"
  shows "length (store ys (k * nd) ((k + 1) * nd) src) = length ys"
proof -
  have "k * nd + nd \<le> length ys" using assms(2) by simp
  then show ?thesis
    using assms(1) by (simp only: store_row [OF assms]) simp
qed

lemma row_store_same:
  assumes "length src = nd" and "(k + 1) * nd \<le> length ys"
  shows "row nd (store ys (k * nd) ((k + 1) * nd) src) k = src"
proof -
  have "k * nd \<le> length ys" using assms(2) by simp
  then show ?thesis
    using assms(1) by (simp only: store_row [OF assms] row_def) simp
qed

lemma row_store_other:
  assumes "length src = nd" and "(k + 1) * nd \<le> length ys" and "j \<noteq> k"
  shows "row nd (store ys (k * nd) ((k + 1) * nd) src) j = row nd ys j"
proof (cases "j < k")
  case True
  then have "Suc j \<le> k" by simp
  then have "Suc j * nd \<le> k * nd" by (rule mult_le_mono1)
  then have le: "j * nd + nd \<le> k * nd" by simp
  have kl: "k * nd \<le> length ys" using assms(2) by simp
  have "take nd (drop (j * nd) (take (k * nd) ys @ src @ drop (k * nd + nd) ys)) =
        take nd (drop (j * nd) (take (k * nd) ys))"
    using le kl by simp
  also have "\<dots> = take nd (drop (j * nd) ys)"
    using le by (simp add: drop_take min_def)
  finally show ?thesis
    by (simp only: store_row [OF assms(1,2)] row_def)
next
  case False
  with assms(3) have "Suc k \<le> j" by simp
  then have "Suc k * nd \<le> j * nd" by (rule mult_le_mono1)
  then obtain m where m: "j * nd = k * nd + nd + m"
    using le_Suc_ex by (metis add.commute mult_Suc)
  have kl: "k * nd \<le> length ys" using assms(2) by simp
  have "drop (j * nd) (take (k * nd) ys @ src @ drop (k * nd + nd) ys) = drop (j * nd) ys"
    using assms(1) kl by (simp add: m add.commute add.left_commute)
  then show ?thesis
    by (simp only: store_row [OF assms(1,2)] row_def)
qed

lemma length_call: "length (fst (call dydx s x y buf)) = length buf"
  by (simp add: call_def length_copy_go split: prod.split)

lemma trial_lengths:
  "length (var_ynew (trial C v)) = c_nd C"
  "length (f1 (var_f (trial C v))) = length (f1 (var_f v))"
  "length (f2 (var_f (trial C v))) = length (f2 (var_f v))"
  "length (f3 (var_f (trial C v))) = length (f3 (var_f v))"
  "length (f4 (var_f (trial C v))) = length (f4 (var_f v))"
  "length (f5 (var_f (trial C v))) = length (f5 (var_f v))"
  "length (f6 (var_f (trial C v))) = length (f6 (var_f v))"
  "length (f7 (var_f (trial C v))) = length (f7 (var_f v))"
  by (simp_all add: trial_def Let_def call_def length_copy_go split: prod.split)

lemma shaped_trial: "shaped C v \<Longrightarrow> shaped C (trial C v)"
  by (simp add: shaped_def trial_keeps trial_lengths)

lemma shaped_shrink: "shaped C v \<Longrightarrow> shaped C (shrink C v)"
  by (simp add: shaped_def shrink_def Let_def)

lemma shaped_begin_step: "shaped C v \<Longrightarrow> shaped C (begin_step C v)"
  by (simp add: shaped_def begin_step_def Let_def)

lemma begin_step_xs: "var_xs (begin_step C v) = var_xs v"
  by (simp add: begin_step_def Let_def)

lemma shaped_advance: "shaped C v \<Longrightarrow> shaped C (advance C v)"
  by (simp add: shaped_def advance_def Let_def length_copy_go)

lemma advance_xs: "var_xs (advance C v) = var_xs v"
  by (simp add: advance_def Let_def)

lemma attempts_shaped_aux:
  "attempts C v = Some r \<Longrightarrow> shaped C v \<Longrightarrow>
     (case r of Inl st \<Rightarrow> True | Inr a \<Rightarrow> shaped C a \<and> var_xs a = var_xs v)"
proof (induction C v r rule: attempts.raw_induct [rotated, consumes 1])
  case (1 rec C v r)
  let ?v1 = "trial C v"
  let ?v2 = "?v1\<lparr>var_stats := (var_stats ?v1)\<lparr>Evaluations := Evaluations (var_stats ?v1) + 6\<rparr>\<rparr>"
  let ?v3 = "?v2\<lparr>var_eps := error_norm C ?v2\<rparr>"
  let ?v4 = "?v3\<lparr>var_stats := (var_stats ?v3)\<lparr>Rejections := Rejections (var_stats ?v3) + 1\<rparr>\<rparr>"
  from "1.hyps" have run:
    "(if var_eps ?v3 \<le> c_relerr C then Some (Inr ?v3)
      else if var_h ?v4 \<le> var_hmin ?v4 then Some (Inl (var_stats ?v4))
      else rec C (shrink C ?v4)) = Some r"
    by (simp only: Let_def)
  have s4: "shaped C ?v4" "shaped C ?v3"
    using shaped_trial [OF "1.prems"] by (simp_all add: shaped_def)
  have x4: "var_xs ?v4 = var_xs v" "var_xs ?v3 = var_xs v"
    by (simp_all add: trial_keeps)
  show ?case
  proof (cases "var_eps ?v3 \<le> c_relerr C")
    case True
    with run s4 x4 show ?thesis by auto
  next
    case False
    note rejected = this
    show ?thesis
    proof (cases "var_h ?v4 \<le> var_hmin ?v4")
      case True
      with run rejected show ?thesis by auto
    next
      case False
      with run rejected have "rec C (shrink C ?v4) = Some r" by simp
      moreover have "shaped C (shrink C ?v4)"
        using s4(1) by (rule shaped_shrink)
      ultimately have
        "case r of Inl st \<Rightarrow> True | Inr a \<Rightarrow> shaped C a \<and> var_xs a = var_xs (shrink C ?v4)"
        by (rule "1.IH")
      then show ?thesis
        by (simp add: shrink_keeps trial_keeps split: sum.splits)
    qed
  qed
qed

lemma attempts_shaped:
  "attempts C v = Some (Inr a) \<Longrightarrow> shaped C v \<Longrightarrow> shaped C a \<and> var_xs a = var_xs v"
  using attempts_shaped_aux [of C v "Inr a"] by simp

lemma fill_row_ys:
  "var_ys (fill_row C v) =
     store (var_ys v) (var_nc v * c_nd C) ((var_nc v + 1) * c_nd C) (filled C v (var_nc v))"
  by (simp add: fill_row_def filled_def Let_def)

lemma length_filled: "shaped C v \<Longrightarrow> length (filled C v k) = c_nd C"
  by (simp add: filled_def interpolate_def Let_def shaped_def)

lemma fill_row_room:
  assumes "shaped C v" and "var_nc v < c_nx C"
  shows "(var_nc v + 1) * c_nd C \<le> length (var_ys v)"
proof -
  have "Suc (var_nc v) \<le> c_nx C" using assms(2) by simp
  then have "Suc (var_nc v) * c_nd C \<le> c_nx C * c_nd C" by (rule mult_le_mono1)
  then show ?thesis using assms(1) by (simp add: shaped_def)
qed

lemma shaped_fill_row:
  assumes "shaped C v" and "var_nc v < c_nx C"
  shows "shaped C (fill_row C v)"
proof -
  have "length (var_ys (fill_row C v)) = length (var_ys v)"
    by (simp only: fill_row_ys length_store_row [OF length_filled [OF assms(1)]
          fill_row_room [OF assms]])
  with assms show ?thesis
    by (simp add: shaped_def fill_row_keeps)
qed

lemma shaped_fill: "shaped C v \<Longrightarrow> shaped C (fill C v)"
proof (induction C v rule: fill.induct)
  case (1 C v)
  show ?case
  proof (cases "var_nc v < c_nx C \<and> \<not> var_xnew v - var_xs v ! var_nc v < 0")
    case True
    then have "fill C v = fill C (fill_row C v)"
      by (subst fill.simps) simp
    moreover have "shaped C (fill C (fill_row C v))"
      using True "1.prems" by (intro "1.IH" shaped_fill_row) simp_all
    ultimately show ?thesis by simp
  next
    case False
    then have "fill C v = v"
      by (subst fill.simps) auto
    with "1.prems" show ?thesis by simp
  qed
qed

lemma shaped_emit: "c_fixed C \<Longrightarrow> shaped C v \<Longrightarrow> shaped C (emit C v)"
  by (simp add: emit_def shaped_fill)

lemma emit_fixed_xs: "c_fixed C \<Longrightarrow> var_xs (emit C v) = var_xs v"
  by (simp add: emit_def fill_keeps)

lemma steps_fixed:
  "steps C v = Some r \<Longrightarrow> shaped C v \<Longrightarrow> c_fixed C \<Longrightarrow> ret_err r = None \<Longrightarrow>
     ret_xs r = Some (var_xs v) \<and>
     (\<exists>ys. ret_ys r = Some ys \<and> length ys = c_nx C * c_nd C)"
proof (induction C v r rule: steps.raw_induct [rotated, consumes 1])
  case (1 rec C v r)
  have b: "shaped C (begin_step C v)"
    using "1.prems"(1) by (rule shaped_begin_step)
  show ?case
  proof (cases "attempts C (begin_step C v)")
    case None
    with "1.hyps" show ?thesis by simp
  next
    case (Some out)
    show ?thesis
    proof (cases out)
      case (Inl st)
      with "1.hyps" Some "1.prems"(3) show ?thesis by auto
    next
      case (Inr a)
      with Some have acc: "attempts C (begin_step C v) = Some (Inr a)" by simp
      from attempts_shaped [OF acc b]
      have sa: "shaped C a" and xa: "var_xs a = var_xs v"
        by (simp_all add: begin_step_xs)
      have se: "shaped C (emit C a)"
        using "1.prems"(2) sa by (rule shaped_emit)
      have xe: "var_xs (emit C a) = var_xs v"
        using "1.prems"(2) xa by (simp add: emit_fixed_xs)
      show ?thesis
      proof (cases "var_done (emit C a)")
        case True
        with "1.hyps" acc
        have "r = \<lparr>ret_ys = Some (var_ys (emit C a)), ret_xs = Some (var_xs (emit C a)),
                   ret_stats = Some (var_stats (emit C a)), ret_err = None\<rparr>"
          by (simp add: Let_def)
        with se xe show ?thesis by (simp add: shaped_def)
      next
        case False
        with "1.hyps" acc have "rec C (advance C (emit C a)) = Some r"
          by (simp add: Let_def)
        moreover have "shaped C (advance C (emit C a))"
          using se by (rule shaped_advance)
        ultimately have "ret_xs r = Some (var_xs (advance C (emit C a))) \<and>
            (\<exists>ys. ret_ys r = Some ys \<and> length ys = c_nx C * c_nd C)"
          using "1.prems"(2,3) by (rule "1.IH")
        then show ?thesis by (simp add: advance_xs xe)
      qed
    qed
  qed
qed

lemma prepare_fixed:
  assumes "2 < length xs" and "prepare E self dydx s0 y0 xs = (C, v)"
  shows "shaped C v \<and> c_fixed C \<and> var_xs v = xs \<and> c_nx C = length xs \<and> c_nd C = length y0"
proof -
  have "length y0 \<le> length xs * length y0"
    using assms(1) by (cases "length xs") simp_all
  then have "length (copy_go (replicate (length xs * length y0) 0) y0) = length xs * length y0"
    by (simp add: length_copy_go)
  with assms show ?thesis
    by (auto simp: prepare_def Let_def shaped_def length_copy_go call_def split: prod.splits)
qed

lemma filled_fill_row: "filled C (fill_row C v) k = filled C v k"
  by (simp add: filled_def fill_row_keeps)

lemma row_fill_row:
  assumes "shaped C v" and "var_nc v < c_nx C"
  shows "row (c_nd C) (var_ys (fill_row C v)) k =
           (if k = var_nc v then filled C v k else row (c_nd C) (var_ys v) k)"
proof (cases "k = var_nc v")
  case True
  then show ?thesis
    by (simp only: fill_row_ys row_store_same [OF length_filled [OF assms(1)]
          fill_row_room [OF assms]]) simp
next
  case False
  then show ?thesis
    by (simp only: fill_row_ys row_store_other [OF length_filled [OF assms(1)]
          fill_row_room [OF assms] False]) simp
qed

lemma fill_rows:
  "shaped C v \<Longrightarrow>
     var_nc v \<le> var_nc (fill C v) \<and> var_nc (fill C v) \<le> c_nx C \<and>
     (\<forall>k. row (c_nd C) (var_ys (fill C v)) k =
        (if var_nc v \<le> k \<and> k < var_nc (fill C v) then filled C v k
         else row (c_nd C) (var_ys v) k)) \<and>
     (\<forall>k. var_nc v \<le> k \<and> k < var_nc (fill C v) \<longrightarrow> \<not> var_xnew v - var_xs v ! k < 0) \<and>
     (var_nc (fill C v) < c_nx C \<longrightarrow> var_xnew v - var_xs v ! var_nc (fill C v) < 0)"
proof (induction C v rule: fill.induct)
  case (1 C v)
  show ?case
  proof (cases "var_nc v < c_nx C \<and> \<not> var_xnew v - var_xs v ! var_nc v < 0")
    case True
    let ?w = "fill_row C v"
    from True have unfold: "fill C v = fill C ?w"
      by (subst fill.simps) simp
    have sw: "shaped C ?w"
      using "1.prems" True by (simp add: shaped_fill_row)
    have IH:
      "var_nc ?w \<le> var_nc (fill C ?w) \<and> var_nc (fill C ?w) \<le> c_nx C \<and>
       (\<forall>k. row (c_nd C) (var_ys (fill C ?w)) k =
          (if var_nc ?w \<le> k \<and> k < var_nc (fill C ?w) then filled C ?w k
           else row (c_nd C) (var_ys ?w) k)) \<and>
       (\<forall>k. var_nc ?w \<le> k \<and> k < var_nc (fill C ?w) \<longrightarrow>
          \<not> var_xnew ?w - var_xs ?w ! k < 0) \<and>
       (var_nc (fill C ?w) < c_nx C \<longrightarrow> var_xnew ?w - var_xs ?w ! var_nc (fill C ?w) < 0)"
      using True sw by (intro "1.IH") simp_all
    have rw: "\<And>k. row (c_nd C) (var_ys ?w) k =
        (if k = var_nc v then filled C v k else row (c_nd C) (var_ys v) k)"
      using "1.prems" True by (simp add: row_fill_row)
    from IH True show ?thesis
      unfolding unfold
      by (simp add: fill_row_keeps filled_fill_row rw) (metis Suc_leI le_antisym not_less_eq_eq)
  next
    case False
    then have "fill C v = v"
      by (subst fill.simps) auto
    with False "1.prems" show ?thesis
      by (auto simp: shaped_def)
  qed
qed

section \<open>The end point of an accepted step\<close>

lemma trial_xnew: "var_xnew (trial C v) = var_x v + var_h v"
  by (simp add: trial_def Let_def split: prod.split)

lemma attempts_endpoint_aux:
  "attempts C v = Some r \<Longrightarrow>
     (case r of Inl st \<Rightarrow> True
      | Inr a \<Rightarrow> var_xnew a = var_x a + var_h a \<and> var_x a = var_x v \<and> var_y a = var_y v)"
proof (induction C v r rule: attempts.raw_induct [rotated, consumes 1])
  case (1 rec C v r)
  let ?v1 = "trial C v"
  let ?v2 = "?v1\<lparr>var_stats := (var_stats ?v1)\<lparr>Evaluations := Evaluations (var_stats ?v1) + 6\<rparr>\<rparr>"
  let ?v3 = "?v2\<lparr>var_eps := error_norm C ?v2\<rparr>"
  let ?v4 = "?v3\<lparr>var_stats := (var_stats ?v3)\<lparr>Rejections := Rejections (var_stats ?v3) + 1\<rparr>\<rparr>"
  from "1.hyps" have run:
    "(if var_eps ?v3 \<le> c_relerr C then Some (Inr ?v3)
      else if var_h ?v4 \<le> var_hmin ?v4 then Some (Inl (var_stats ?v4))
      else rec C (shrink C ?v4)) = Some r"
    by (simp only: Let_def)
  show ?case
  proof (cases "var_eps ?v3 \<le> c_relerr C")
    case True
    with run show ?thesis by (auto simp: trial_xnew trial_keeps)
  next
    case False
    note rejected = this
    show ?thesis
    proof (cases "var_h ?v4 \<le> var_hmin ?v4")
      case True
      with run rejected show ?thesis by auto
    next
      case False
      with run rejected have "rec C (shrink C ?v4) = Some r" by simp
      then have "case r of Inl st \<Rightarrow> True
        | Inr a \<Rightarrow> var_xnew a = var_x a + var_h a \<and> var_x a = var_x (shrink C ?v4) \<and>
            var_y a = var_y (shrink C ?v4)"
        by (rule "1.IH")
      then show ?thesis
        by (simp add: shrink_keeps trial_keeps split: sum.splits)
    qed
  qed
qed

lemma attempts_endpoint:
  "attempts C v = Some (Inr a) \<Longrightarrow>
     var_xnew a = var_x a + var_h a \<and> var_x a = var_x v \<and> var_y a = var_y v"
  using attempts_endpoint_aux [of C v "Inr a"] by simp

lemma begin_step_xy: "var_x (begin_step C v) = var_x v" "var_y (begin_step C v) = var_y v"
  by (simp_all add: begin_step_def Let_def)

section \<open>The rejection loop and the step-size controller, unfolded\<close>

lemma attempts_unfold:
  "attempts C v =
     (if var_eps (estimate C v) \<le> c_relerr C then Some (Inr (estimate C v))
      else if var_h v \<le> var_hmin v then Some (Inl (var_stats (reject (estimate C v))))
      else attempts C (shrink C (reject (estimate C v))))"
  by (subst attempts.simps) (simp add: estimate_def reject_def Let_def trial_keeps)

lemma estimate_keeps:
  "var_h (estimate C v) = var_h v"
  "var_hmin (estimate C v) = var_hmin v"
  "var_done (estimate C v) = var_done v"
  "var_rejected (estimate C v) = var_rejected v"
  "var_x (estimate C v) = var_x v"
  "var_y (estimate C v) = var_y v"
  "var_ynew (estimate C v) = var_ynew (trial C v)"
  "var_f (estimate C v) = var_f (trial C v)"
  "var_xnew (estimate C v) = var_x v + var_h v"
  "var_stats (estimate C v) = (var_stats v)\<lparr>Evaluations := Evaluations (var_stats v) + 6\<rparr>"
  by (simp_all add: estimate_def Let_def trial_keeps trial_xnew)




lemma fmax_max:
  fixes a :: "'a::linorder"
  shows "fmax a b = max a b"
  by (auto simp: fmax_def max_def)

lemma fmin_min:
  fixes a :: "'a::linorder"
  shows "fmin a b = min a b"
  by (auto simp: fmin_def min_def)

lemma fabs_abs:
  fixes a :: "'a::linordered_field"
  shows "fabs a = \<bar>a\<bar>" and "fabs_pos a = \<bar>a\<bar>"
  by (auto simp: fabs_def fabs_pos_def abs_if not_less)

lemma fold_max:
  fixes g :: "nat \<Rightarrow> 'a::linorder"
  shows "fold (\<lambda>i a. max a (g i)) xs a0 = Max (insert a0 (g ` set xs))"
proof (induction xs arbitrary: a0)
  case Nil
  then show ?case by simp
next
  case (Cons x xs)
  have fin: "finite (insert (g x) (g ` set xs))" by simp
  have "Max (insert (max a0 (g x)) (g ` set xs)) =
        max (max a0 (g x)) (Max (insert (g x) (g ` set xs)))"
  proof (cases "set xs = {}")
    case True
    then show ?thesis by simp
  next
    case False
    then have ne: "g ` set xs \<noteq> {}" by simp
    have "Max (insert (max a0 (g x)) (g ` set xs)) = max (max a0 (g x)) (Max (g ` set xs))"
      using ne by simp
    moreover have "Max (insert (g x) (g ` set xs)) = max (g x) (Max (g ` set xs))"
      using ne by simp
    ultimately show ?thesis
      by (simp add: max.assoc)
  qed
  also have "\<dots> = max a0 (Max (insert (g x) (g ` set xs)))"
    using fin by (simp add: max.assoc)
  also have "\<dots> = Max (insert a0 (insert (g x) (g ` set xs)))"
    using fin by simp
  finally show ?case
    using Cons.IH [of "max a0 (g x)"] by simp
qed

lemma fill_row_keeps2:
  "var_eps (fill_row C v) = var_eps v"
  "var_rejected (fill_row C v) = var_rejected v"
  "var_hmin (fill_row C v) = var_hmin v"
  by (simp_all add: fill_row_def Let_def)

lemma fill_keeps2:
  "var_h (fill C v) = var_h v \<and> var_eps (fill C v) = var_eps v \<and>
   var_rejected (fill C v) = var_rejected v \<and> var_xnew (fill C v) = var_xnew v"
proof (induction C v rule: fill.induct)
  case (1 C v)
  show ?case
    by (subst (1 2 3 4) fill.simps) (simp add: "1.IH" fill_row_keeps fill_row_keeps2)
qed

lemma emit_keeps2:
  "var_h (emit C v) = var_h v"
  "var_eps (emit C v) = var_eps v"
  "var_rejected (emit C v) = var_rejected v"
  "var_xnew (emit C v) = var_xnew v"
  by (simp_all add: emit_def fill_keeps2)

lemma attempts_rejected_aux:
  "attempts C v = Some r \<Longrightarrow> var_rejected v \<Longrightarrow>
     (case r of Inl st \<Rightarrow> True | Inr a \<Rightarrow> var_rejected a)"
proof (induction C v r rule: attempts.raw_induct [rotated, consumes 1])
  case (1 rec C v r)
  let ?v1 = "trial C v"
  let ?v2 = "?v1\<lparr>var_stats := (var_stats ?v1)\<lparr>Evaluations := Evaluations (var_stats ?v1) + 6\<rparr>\<rparr>"
  let ?v3 = "?v2\<lparr>var_eps := error_norm C ?v2\<rparr>"
  let ?v4 = "?v3\<lparr>var_stats := (var_stats ?v3)\<lparr>Rejections := Rejections (var_stats ?v3) + 1\<rparr>\<rparr>"
  from "1.hyps" have run:
    "(if var_eps ?v3 \<le> c_relerr C then Some (Inr ?v3)
      else if var_h ?v4 \<le> var_hmin ?v4 then Some (Inl (var_stats ?v4))
      else rec C (shrink C ?v4)) = Some r"
    by (simp only: Let_def)
  show ?case
  proof (cases "var_eps ?v3 \<le> c_relerr C")
    case True
    with run have "r = Inr ?v3" by simp
    with "1.prems" show ?thesis by (simp add: trial_keeps)
  next
    case False
    note rejected = this
    show ?thesis
    proof (cases "var_h ?v4 \<le> var_hmin ?v4")
      case True
      with run rejected show ?thesis by auto
    next
      case False
      with run rejected have "rec C (shrink C ?v4) = Some r" by simp
      moreover have "var_rejected (shrink C ?v4)"
        by (simp add: shrink_def Let_def)
      ultimately show ?thesis by (rule "1.IH")
    qed
  qed
qed

lemma attempts_rejected:
  "attempts C v = Some (Inr a) \<Longrightarrow> var_rejected v \<Longrightarrow> var_rejected a"
  using attempts_rejected_aux [of C v "Inr a"] by simp

lemma shrink_rejected: "var_rejected (shrink C v)"
  by (simp add: shrink_def Let_def)

lemma begin_step_rejected: "\<not> var_rejected (begin_step C v)"
  by (simp add: begin_step_def Let_def)

lemma accepted_rejected:
  assumes "attempts C (begin_step C v) = Some (Inr a)"
  shows "var_rejected a = (\<not> var_eps (estimate C (begin_step C v)) \<le> c_relerr C)"
proof (cases "var_eps (estimate C (begin_step C v)) \<le> c_relerr C")
  case True
  with assms have "a = estimate C (begin_step C v)"
    by (subst (asm) attempts_unfold) simp
  with True show ?thesis
    by (simp add: estimate_keeps begin_step_rejected)
next
  case False
  with assms have "attempts C (shrink C (reject (estimate C (begin_step C v)))) = Some (Inr a)"
    by (subst (asm) attempts_unfold) (simp split: if_splits)
  from attempts_rejected [OF this shrink_rejected] False show ?thesis
    by simp
qed

lemma advance_step:
  "var_x (advance C v) = var_xnew v"
  "var_h (advance C v) =
     (if var_rejected v then var_h v
      else if lit (c_arith C) (1 / 5) <
                lit (c_arith C) (5 / 4) *
                  math_Pow (c_arith C) (var_eps v / c_relerr C) (power (c_arith C))
           then var_h v /
                  (lit (c_arith C) (5 / 4) *
                     math_Pow (c_arith C) (var_eps v / c_relerr C) (power (c_arith C)))
           else lit (c_arith C) 5 * var_h v)"
  by (simp_all add: advance_def Let_def)

lemma steps_continue:
  assumes "attempts C (begin_step C v) = Some (Inr a)" and "\<not> var_done (emit C a)"
  shows "steps C v = steps C (advance C (emit C a))"
  using assms by (subst steps.simps) (simp add: Let_def)


section \<open>The error of a trial and the first step size, in the words of the specification\<close>

lemma scale_at_fmax:
  "scale_at threshold y f i s = fmax s (fabs (f ! i / fmax (fabs (y ! i)) threshold))"
  by (simp add: scale_at_def Let_def fmax_def fabs_def)

lemma max_step_unfold:
  "max_step E cfg x xend =
     (if feq E (MaxStep cfg) 0 then lit E (1 / 10) * (xend - x) else MaxStep cfg)"
  by (simp add: max_step_def Let_def)

lemma initial_step_unfold:
  "initial_step E cfg xs x hmax y f threshold relerr nd =
     (if feq E (TryStep cfg) 0 then
        (let h = fmin (xs ! 1 - x) hmax;
             scale = fold (\<lambda>i s. fmax s (fabs (f ! i / fmax (fabs (y ! i)) threshold)))
                       [0..<nd] 0 /
                     (lit E (4 / 5) * math_Pow E relerr (power E))
         in if 1 < h * scale then 1 / scale else h)
      else TryStep cfg)"
proof -
  have "scale_at threshold y f = (\<lambda>i s. fmax s (fabs (f ! i / fmax (fabs (y ! i)) threshold)))"
    by (intro ext) (rule scale_at_fmax)
  then show ?thesis
    by (simp add: initial_step_def Let_def fmin_def)
qed

lemma prepare_fields:
  "c_arith (fst (prepare E self dydx s0 y0 xs)) = E"
  "c_nd (fst (prepare E self dydx s0 y0 xs)) = length y0"
  "c_xend (fst (prepare E self dydx s0 y0 xs)) = xs ! (length xs - 1)"
  "c_relerr (fst (prepare E self dydx s0 y0 xs)) = RelError (config self)"
  "c_threshold (fst (prepare E self dydx s0 y0 xs)) =
     AbsError (config self) / RelError (config self)"
  "c_hmax (fst (prepare E self dydx s0 y0 xs)) =
     max_step E (config self) (xs ! 0) (xs ! (length xs - 1))"
  "var_x (snd (prepare E self dydx s0 y0 xs)) = xs ! 0"
  "var_y (snd (prepare E self dydx s0 y0 xs)) = y0"
  "f1 (var_f (snd (prepare E self dydx s0 y0 xs))) =
     fst (call dydx s0 (xs ! 0) y0 (replicate (length y0) 0))"
  by (simp_all add: prepare_def Let_def copy_go_same split: prod.split)

lemma prepare_h:
  "var_h (snd (prepare E self dydx s0 y0 xs)) =
     initial_step E (config self) xs (xs ! 0)
       (max_step E (config self) (xs ! 0) (xs ! (length xs - 1))) y0
       (fst (call dydx s0 (xs ! 0) y0 (replicate (length y0) 0)))
       (AbsError (config self) / RelError (config self)) (RelError (config self)) (length y0)"
  by (simp add: prepare_def Let_def copy_go_same split: prod.split)

lemma fold_fmax:
  fixes g :: "nat \<Rightarrow> 'a::linorder"
  shows "fold (\<lambda>i a. fmax a (g i)) [0..<n] a0 = Max (insert a0 (g ` {..<n}))"
proof -
  have "fold (\<lambda>i a. fmax a (g i)) [0..<n] a0 = fold (\<lambda>i a. max a (g i)) [0..<n] a0"
    by (simp add: fmax_max)
  also have "\<dots> = Max (insert a0 (g ` set [0..<n]))"
    by (rule fold_max)
  finally show ?thesis
    by (simp add: atLeast0LessThan)
qed

lemma Max_insert_0:
  fixes g :: "nat \<Rightarrow> 'a::linordered_field"
  assumes "0 < n" and "\<And>i. 0 \<le> g i"
  shows "Max (insert 0 (g ` {..<n})) = Max (g ` {..<n})"
proof -
  have ne: "g ` {..<n} \<noteq> {}" using assms(1) by auto
  have "Max (insert 0 (g ` {..<n})) = max 0 (Max (g ` {..<n}))"
    using ne by simp
  moreover have "g 0 \<le> Max (g ` {..<n})"
    using assms(1) by (intro Max_ge) auto
  then have "0 \<le> Max (g ` {..<n})"
    using assms(2) [of 0] by simp
  ultimately show ?thesis by simp
qed

lemma first_scale:
  fixes f :: "'a::linordered_field list"
  assumes "0 < nd"
  shows "fold (\<lambda>i s. fmax s (fabs (f ! i / fmax (fabs (y ! i)) threshold))) [0..<nd] 0 =
         Max ((\<lambda>i. \<bar>f ! i\<bar> / max \<bar>y ! i\<bar> threshold) ` {..<nd})"
proof -
  have g: "fabs (f ! i / fmax (fabs (y ! i)) threshold) = \<bar>f ! i\<bar> / max \<bar>y ! i\<bar> threshold" for i
  proof -
    have "0 \<le> max \<bar>y ! i\<bar> threshold"
      by (simp add: le_max_iff_disj)
    then show ?thesis
      by (simp add: fabs_abs fmax_max abs_divide abs_of_nonneg del: abs_le_iff)
  qed
  have "fold (\<lambda>i s. fmax s (fabs (f ! i / fmax (fabs (y ! i)) threshold))) [0..<nd] 0 =
        Max (insert 0 ((\<lambda>i. fabs (f ! i / fmax (fabs (y ! i)) threshold)) ` {..<nd}))"
    by (rule fold_fmax)
  also have "\<dots> = Max (insert 0 ((\<lambda>i. \<bar>f ! i\<bar> / max \<bar>y ! i\<bar> threshold) ` {..<nd}))"
    by (simp only: g)
  also have "\<dots> = Max ((\<lambda>i. \<bar>f ! i\<bar> / max \<bar>y ! i\<bar> threshold) ` {..<nd})"
  proof (rule Max_insert_0 [OF assms])
    fix i
    have "0 \<le> max \<bar>y ! i\<bar> threshold"
      by (simp add: le_max_iff_disj)
    then show "0 \<le> \<bar>f ! i\<bar> / max \<bar>y ! i\<bar> threshold"
      by (intro divide_nonneg_nonneg) simp_all
  qed
  finally show ?thesis .
qed




section \<open>The three runs, step by step\<close>

lemmas run_simps = call_def jump_def copy_go_def exact_def Let_def

lemmas attempt_simps =
  trial_def error_norm_def error_at_def shrink_def stage_consts error_consts power_def run_simps

lemmas fill_simps = fill_row_def store_def interpolate_def flat_def dense_consts run_simps

lemma ComputeWithStats_run:
  assumes "xs \<noteq> []" and "\<not> (feq E (TryStep (config self)) 0 \<and> length xs < 2)"
    and "prepare E self dydx s0 y0 xs = (C, v)" and "steps C v = Some r"
  shows "ComputeWithStats E self dydx s0 y0 xs = Some (Returns r)"
  using assms by (simp add: ComputeWithStats_def)

lemma free_run_root0: "root5 (0) = 0"
  by (simp add: root5_def)

lemma free_run_root1: "root5 (1047 / 1420) = 15785253 / 16777216"
  by code_simp

lemma free_run_prepare:
  "prepare exact \<lparr>config = sample_config\<rparr> (jump 1 10) () [0] [1, 2] =
     (free_ctx,
      \<lparr>var_x = 1, var_h = 1, var_hmin = 0,
       var_y = [0], var_ynew = [0], var_xnew = 0, var_eps = 0,
       var_f = \<lparr>f1 = [0], f2 = [0], f3 = [0], f4 = [0], f5 = [0], f6 = [0], f7 = [0]\<rparr>,
       var_done = False, var_rejected = False, var_nc = 1, var_ys = [0],
       var_xs = [1],
       var_stats = \<lparr>Evaluations = 1, Rejections = 0, Steps = 0\<rparr>, var_s = ()\<rparr>)"
  by (simp add: prepare_def max_step_def initial_step_def free_ctx_def sample_config_def run_simps)

lemma free_run_begin1:
  "begin_step free_ctx
     \<lparr>var_x = 1, var_h = 1, var_hmin = 0,
      var_y = [0], var_ynew = [0], var_xnew = 0, var_eps = 0,
      var_f = \<lparr>f1 = [0], f2 = [0], f3 = [0], f4 = [0], f5 = [0], f6 = [0], f7 = [0]\<rparr>,
      var_done = False, var_rejected = False, var_nc = 1, var_ys = [0],
      var_xs = [1],
      var_stats = \<lparr>Evaluations = 1, Rejections = 0, Steps = 0\<rparr>, var_s = ()\<rparr> =
     \<lparr>var_x = 1, var_h = 1, var_hmin = 1 / 281474976710656,
      var_y = [0], var_ynew = [0], var_xnew = 0, var_eps = 0,
      var_f = \<lparr>f1 = [0], f2 = [0], f3 = [0], f4 = [0], f5 = [0], f6 = [0], f7 = [0]\<rparr>,
      var_done = True, var_rejected = False, var_nc = 1, var_ys = [0],
      var_xs = [1],
      var_stats = \<lparr>Evaluations = 1, Rejections = 0, Steps = 1\<rparr>, var_s = ()\<rparr>"
  by (simp add: begin_step_def epsilon_def free_ctx_def run_simps)


lemma free_run_attempt1_1:
  "attempts free_ctx
     \<lparr>var_x = 1, var_h = 1, var_hmin = 1 / 281474976710656,
      var_y = [0], var_ynew = [0], var_xnew = 0, var_eps = 0,
      var_f = \<lparr>f1 = [0], f2 = [0], f3 = [0], f4 = [0], f5 = [0], f6 = [0], f7 = [0]\<rparr>,
      var_done = True, var_rejected = False, var_nc = 1, var_ys = [0],
      var_xs = [1],
      var_stats = \<lparr>Evaluations = 1, Rejections = 0, Steps = 1\<rparr>, var_s = ()\<rparr> =
   attempts free_ctx
     \<lparr>var_x = 1, var_h = 15785253 / 20971520, var_hmin = 1 / 281474976710656,
      var_y = [0], var_ynew = [1745 / 192], var_xnew = 2, var_eps = 71 / 52350,
      var_f = \<lparr>f1 = [0], f2 = [10], f3 = [10], f4 = [10], f5 = [10], f6 = [10], f7 = [10]\<rparr>,
      var_done = False, var_rejected = True, var_nc = 1, var_ys = [0],
      var_xs = [1],
      var_stats = \<lparr>Evaluations = 7, Rejections = 1, Steps = 1\<rparr>, var_s = ()\<rparr>"
  by (subst attempts.simps) (simp add: attempt_simps free_ctx_def free_run_root0 free_run_root1)

lemma free_run_attempt1_2:
  "attempts free_ctx
     \<lparr>var_x = 1, var_h = 15785253 / 20971520, var_hmin = 1 / 281474976710656,
      var_y = [0], var_ynew = [1745 / 192], var_xnew = 2, var_eps = 71 / 52350,
      var_f = \<lparr>f1 = [0], f2 = [10], f3 = [10], f4 = [10], f5 = [10], f6 = [10], f7 = [10]\<rparr>,
      var_done = False, var_rejected = True, var_nc = 1, var_ys = [0],
      var_xs = [1],
      var_stats = \<lparr>Evaluations = 7, Rejections = 1, Steps = 1\<rparr>, var_s = ()\<rparr> =
   attempts free_ctx
     \<lparr>var_x = 1, var_h = 15785253 / 41943040, var_hmin = 1 / 281474976710656,
      var_y = [0], var_ynew = [1836351099 / 268435456], var_xnew = 36756773 / 20971520, var_eps = 71 / 52350,
      var_f = \<lparr>f1 = [0], f2 = [10], f3 = [10], f4 = [10], f5 = [10], f6 = [10], f7 = [10]\<rparr>,
      var_done = False, var_rejected = True, var_nc = 1, var_ys = [0],
      var_xs = [1],
      var_stats = \<lparr>Evaluations = 13, Rejections = 2, Steps = 1\<rparr>, var_s = ()\<rparr>"
  by (subst attempts.simps) (simp add: attempt_simps free_ctx_def free_run_root0 free_run_root1)

lemma free_run_attempt1_3:
  "attempts free_ctx
     \<lparr>var_x = 1, var_h = 15785253 / 41943040, var_hmin = 1 / 281474976710656,
      var_y = [0], var_ynew = [1836351099 / 268435456], var_xnew = 36756773 / 20971520, var_eps = 71 / 52350,
      var_f = \<lparr>f1 = [0], f2 = [10], f3 = [10], f4 = [10], f5 = [10], f6 = [10], f7 = [10]\<rparr>,
      var_done = False, var_rejected = True, var_nc = 1, var_ys = [0],
      var_xs = [1],
      var_stats = \<lparr>Evaluations = 13, Rejections = 2, Steps = 1\<rparr>, var_s = ()\<rparr> =
   attempts free_ctx
     \<lparr>var_x = 1, var_h = 15785253 / 83886080, var_hmin = 1 / 281474976710656,
      var_y = [0], var_ynew = [1836351099 / 536870912], var_xnew = 57728293 / 41943040, var_eps = 71 / 52350,
      var_f = \<lparr>f1 = [0], f2 = [10], f3 = [10], f4 = [10], f5 = [10], f6 = [10], f7 = [10]\<rparr>,
      var_done = False, var_rejected = True, var_nc = 1, var_ys = [0],
      var_xs = [1],
      var_stats = \<lparr>Evaluations = 19, Rejections = 3, Steps = 1\<rparr>, var_s = ()\<rparr>"
  by (subst attempts.simps) (simp add: attempt_simps free_ctx_def free_run_root0 free_run_root1)

lemma free_run_attempt1_4:
  "attempts free_ctx
     \<lparr>var_x = 1, var_h = 15785253 / 83886080, var_hmin = 1 / 281474976710656,
      var_y = [0], var_ynew = [1836351099 / 536870912], var_xnew = 57728293 / 41943040, var_eps = 71 / 52350,
      var_f = \<lparr>f1 = [0], f2 = [10], f3 = [10], f4 = [10], f5 = [10], f6 = [10], f7 = [10]\<rparr>,
      var_done = False, var_rejected = True, var_nc = 1, var_ys = [0],
      var_xs = [1],
      var_stats = \<lparr>Evaluations = 19, Rejections = 3, Steps = 1\<rparr>, var_s = ()\<rparr> =
   attempts free_ctx
     \<lparr>var_x = 1, var_h = 15785253 / 167772160, var_hmin = 1 / 281474976710656,
      var_y = [0], var_ynew = [1836351099 / 1073741824], var_xnew = 99671333 / 83886080, var_eps = 71 / 52350,
      var_f = \<lparr>f1 = [0], f2 = [10], f3 = [10], f4 = [10], f5 = [10], f6 = [10], f7 = [10]\<rparr>,
      var_done = False, var_rejected = True, var_nc = 1, var_ys = [0],
      var_xs = [1],
      var_stats = \<lparr>Evaluations = 25, Rejections = 4, Steps = 1\<rparr>, var_s = ()\<rparr>"
  by (subst attempts.simps) (simp add: attempt_simps free_ctx_def free_run_root0 free_run_root1)

lemma free_run_attempt1_5:
  "attempts free_ctx
     \<lparr>var_x = 1, var_h = 15785253 / 167772160, var_hmin = 1 / 281474976710656,
      var_y = [0], var_ynew = [1836351099 / 1073741824], var_xnew = 99671333 / 83886080, var_eps = 71 / 52350,
      var_f = \<lparr>f1 = [0], f2 = [10], f3 = [10], f4 = [10], f5 = [10], f6 = [10], f7 = [10]\<rparr>,
      var_done = False, var_rejected = True, var_nc = 1, var_ys = [0],
      var_xs = [1],
      var_stats = \<lparr>Evaluations = 25, Rejections = 4, Steps = 1\<rparr>, var_s = ()\<rparr> =
   attempts free_ctx
     \<lparr>var_x = 1, var_h = 15785253 / 335544320, var_hmin = 1 / 281474976710656,
      var_y = [0], var_ynew = [1836351099 / 2147483648], var_xnew = 183557413 / 167772160, var_eps = 124528107 / 107374182400,
      var_f = \<lparr>f1 = [0], f2 = [10], f3 = [10], f4 = [10], f5 = [10], f6 = [10], f7 = [10]\<rparr>,
      var_done = False, var_rejected = True, var_nc = 1, var_ys = [0],
      var_xs = [1],
      var_stats = \<lparr>Evaluations = 31, Rejections = 5, Steps = 1\<rparr>, var_s = ()\<rparr>"
  by (subst attempts.simps) (simp add: attempt_simps free_ctx_def free_run_root0 free_run_root1)

lemma free_run_attempt1_6:
  "attempts free_ctx
     \<lparr>var_x = 1, var_h = 15785253 / 335544320, var_hmin = 1 / 281474976710656,
      var_y = [0], var_ynew = [1836351099 / 2147483648], var_xnew = 183557413 / 167772160, var_eps = 124528107 / 107374182400,
      var_f = \<lparr>f1 = [0], f2 = [10], f3 = [10], f4 = [10], f5 = [10], f6 = [10], f7 = [10]\<rparr>,
      var_done = False, var_rejected = True, var_nc = 1, var_ys = [0],
      var_xs = [1],
      var_stats = \<lparr>Evaluations = 31, Rejections = 5, Steps = 1\<rparr>, var_s = ()\<rparr> =
   Some (Inr
     \<lparr>var_x = 1, var_h = 15785253 / 335544320, var_hmin = 1 / 281474976710656,
      var_y = [0], var_ynew = [1836351099 / 4294967296], var_xnew = 351329573 / 335544320, var_eps = 124528107 / 214748364800,
      var_f = \<lparr>f1 = [0], f2 = [10], f3 = [10], f4 = [10], f5 = [10], f6 = [10], f7 = [10]\<rparr>,
      var_done = False, var_rejected = True, var_nc = 1, var_ys = [0],
      var_xs = [1],
      var_stats = \<lparr>Evaluations = 37, Rejections = 5, Steps = 1\<rparr>, var_s = ()\<rparr>)"
  by (subst attempts.simps) (simp add: attempt_simps free_ctx_def free_run_root0 free_run_root1)

lemma free_run_emit1:
  "emit free_ctx
     \<lparr>var_x = 1, var_h = 15785253 / 335544320, var_hmin = 1 / 281474976710656,
      var_y = [0], var_ynew = [1836351099 / 4294967296], var_xnew = 351329573 / 335544320, var_eps = 124528107 / 214748364800,
      var_f = \<lparr>f1 = [0], f2 = [10], f3 = [10], f4 = [10], f5 = [10], f6 = [10], f7 = [10]\<rparr>,
      var_done = False, var_rejected = True, var_nc = 1, var_ys = [0],
      var_xs = [1],
      var_stats = \<lparr>Evaluations = 37, Rejections = 5, Steps = 1\<rparr>, var_s = ()\<rparr> =
     \<lparr>var_x = 1, var_h = 15785253 / 335544320, var_hmin = 1 / 281474976710656,
      var_y = [0], var_ynew = [1836351099 / 4294967296], var_xnew = 351329573 / 335544320, var_eps = 124528107 / 214748364800,
      var_f = \<lparr>f1 = [0], f2 = [10], f3 = [10], f4 = [10], f5 = [10], f6 = [10], f7 = [10]\<rparr>,
      var_done = False, var_rejected = True, var_nc = 2, var_ys = [0, 1836351099 / 4294967296],
      var_xs = [1, 351329573 / 335544320],
      var_stats = \<lparr>Evaluations = 37, Rejections = 5, Steps = 1\<rparr>, var_s = ()\<rparr>"
  by (simp add: emit_def free_ctx_def)

lemma free_run_step1:
  "steps free_ctx
     \<lparr>var_x = 1, var_h = 1, var_hmin = 0,
      var_y = [0], var_ynew = [0], var_xnew = 0, var_eps = 0,
      var_f = \<lparr>f1 = [0], f2 = [0], f3 = [0], f4 = [0], f5 = [0], f6 = [0], f7 = [0]\<rparr>,
      var_done = False, var_rejected = False, var_nc = 1, var_ys = [0],
      var_xs = [1],
      var_stats = \<lparr>Evaluations = 1, Rejections = 0, Steps = 0\<rparr>, var_s = ()\<rparr> =
   steps free_ctx
     \<lparr>var_x = 351329573 / 335544320, var_h = 15785253 / 335544320, var_hmin = 1 / 281474976710656,
      var_y = [1836351099 / 4294967296], var_ynew = [1836351099 / 4294967296], var_xnew = 351329573 / 335544320, var_eps = 124528107 / 214748364800,
      var_f = \<lparr>f1 = [10], f2 = [10], f3 = [10], f4 = [10], f5 = [10], f6 = [10], f7 = [10]\<rparr>,
      var_done = False, var_rejected = True, var_nc = 2, var_ys = [0, 1836351099 / 4294967296],
      var_xs = [1, 351329573 / 335544320],
      var_stats = \<lparr>Evaluations = 37, Rejections = 5, Steps = 1\<rparr>, var_s = ()\<rparr>"
  apply (subst steps.simps)
  apply (simp only: free_run_begin1 free_run_attempt1_1 free_run_attempt1_2 free_run_attempt1_3 free_run_attempt1_4 free_run_attempt1_5 free_run_attempt1_6 option.case sum.case Let_def free_run_emit1)
  apply (simp add: advance_def power_def free_ctx_def free_run_root0 free_run_root1 run_simps eval_nat_numeral)
  done

lemma free_run_begin2:
  "begin_step free_ctx
     \<lparr>var_x = 351329573 / 335544320, var_h = 15785253 / 335544320, var_hmin = 1 / 281474976710656,
      var_y = [1836351099 / 4294967296], var_ynew = [1836351099 / 4294967296], var_xnew = 351329573 / 335544320, var_eps = 124528107 / 214748364800,
      var_f = \<lparr>f1 = [10], f2 = [10], f3 = [10], f4 = [10], f5 = [10], f6 = [10], f7 = [10]\<rparr>,
      var_done = False, var_rejected = True, var_nc = 2, var_ys = [0, 1836351099 / 4294967296],
      var_xs = [1, 351329573 / 335544320],
      var_stats = \<lparr>Evaluations = 37, Rejections = 5, Steps = 1\<rparr>, var_s = ()\<rparr> =
     \<lparr>var_x = 351329573 / 335544320, var_h = 15785253 / 335544320, var_hmin = 1 / 281474976710656,
      var_y = [1836351099 / 4294967296], var_ynew = [1836351099 / 4294967296], var_xnew = 351329573 / 335544320, var_eps = 124528107 / 214748364800,
      var_f = \<lparr>f1 = [10], f2 = [10], f3 = [10], f4 = [10], f5 = [10], f6 = [10], f7 = [10]\<rparr>,
      var_done = False, var_rejected = False, var_nc = 2, var_ys = [0, 1836351099 / 4294967296],
      var_xs = [1, 351329573 / 335544320],
      var_stats = \<lparr>Evaluations = 37, Rejections = 5, Steps = 2\<rparr>, var_s = ()\<rparr>"
  by (simp add: begin_step_def epsilon_def free_ctx_def run_simps)

lemma free_run_attempt2_1:
  "attempts free_ctx
     \<lparr>var_x = 351329573 / 335544320, var_h = 15785253 / 335544320, var_hmin = 1 / 281474976710656,
      var_y = [1836351099 / 4294967296], var_ynew = [1836351099 / 4294967296], var_xnew = 351329573 / 335544320, var_eps = 124528107 / 214748364800,
      var_f = \<lparr>f1 = [10], f2 = [10], f3 = [10], f4 = [10], f5 = [10], f6 = [10], f7 = [10]\<rparr>,
      var_done = False, var_rejected = False, var_nc = 2, var_ys = [0, 1836351099 / 4294967296],
      var_xs = [1, 351329573 / 335544320],
      var_stats = \<lparr>Evaluations = 37, Rejections = 5, Steps = 2\<rparr>, var_s = ()\<rparr> =
   Some (Inr
     \<lparr>var_x = 351329573 / 335544320, var_h = 15785253 / 335544320, var_hmin = 1 / 281474976710656,
      var_y = [1836351099 / 4294967296], var_ynew = [3856863483 / 4294967296], var_xnew = 183557413 / 167772160, var_eps = 0,
      var_f = \<lparr>f1 = [10], f2 = [10], f3 = [10], f4 = [10], f5 = [10], f6 = [10], f7 = [10]\<rparr>,
      var_done = False, var_rejected = False, var_nc = 2, var_ys = [0, 1836351099 / 4294967296],
      var_xs = [1, 351329573 / 335544320],
      var_stats = \<lparr>Evaluations = 43, Rejections = 5, Steps = 2\<rparr>, var_s = ()\<rparr>)"
  by (subst attempts.simps) (simp add: attempt_simps free_ctx_def free_run_root0 free_run_root1)

lemma free_run_emit2:
  "emit free_ctx
     \<lparr>var_x = 351329573 / 335544320, var_h = 15785253 / 335544320, var_hmin = 1 / 281474976710656,
      var_y = [1836351099 / 4294967296], var_ynew = [3856863483 / 4294967296], var_xnew = 183557413 / 167772160, var_eps = 0,
      var_f = \<lparr>f1 = [10], f2 = [10], f3 = [10], f4 = [10], f5 = [10], f6 = [10], f7 = [10]\<rparr>,
      var_done = False, var_rejected = False, var_nc = 2, var_ys = [0, 1836351099 / 4294967296],
      var_xs = [1, 351329573 / 335544320],
      var_stats = \<lparr>Evaluations = 43, Rejections = 5, Steps = 2\<rparr>, var_s = ()\<rparr> =
     \<lparr>var_x = 351329573 / 335544320, var_h = 15785253 / 335544320, var_hmin = 1 / 281474976710656,
      var_y = [1836351099 / 4294967296], var_ynew = [3856863483 / 4294967296], var_xnew = 183557413 / 167772160, var_eps = 0,
      var_f = \<lparr>f1 = [10], f2 = [10], f3 = [10], f4 = [10], f5 = [10], f6 = [10], f7 = [10]\<rparr>,
      var_done = False, var_rejected = False, var_nc = 3, var_ys = [0, 1836351099 / 4294967296, 3856863483 / 4294967296],
      var_xs = [1, 351329573 / 335544320, 183557413 / 167772160],
      var_stats = \<lparr>Evaluations = 43, Rejections = 5, Steps = 2\<rparr>, var_s = ()\<rparr>"
  by (simp add: emit_def free_ctx_def)

lemma free_run_step2:
  "steps free_ctx
     \<lparr>var_x = 351329573 / 335544320, var_h = 15785253 / 335544320, var_hmin = 1 / 281474976710656,
      var_y = [1836351099 / 4294967296], var_ynew = [1836351099 / 4294967296], var_xnew = 351329573 / 335544320, var_eps = 124528107 / 214748364800,
      var_f = \<lparr>f1 = [10], f2 = [10], f3 = [10], f4 = [10], f5 = [10], f6 = [10], f7 = [10]\<rparr>,
      var_done = False, var_rejected = True, var_nc = 2, var_ys = [0, 1836351099 / 4294967296],
      var_xs = [1, 351329573 / 335544320],
      var_stats = \<lparr>Evaluations = 37, Rejections = 5, Steps = 1\<rparr>, var_s = ()\<rparr> =
   steps free_ctx
     \<lparr>var_x = 183557413 / 167772160, var_h = 15785253 / 67108864, var_hmin = 1 / 281474976710656,
      var_y = [3856863483 / 4294967296], var_ynew = [3856863483 / 4294967296], var_xnew = 183557413 / 167772160, var_eps = 0,
      var_f = \<lparr>f1 = [10], f2 = [10], f3 = [10], f4 = [10], f5 = [10], f6 = [10], f7 = [10]\<rparr>,
      var_done = False, var_rejected = False, var_nc = 3, var_ys = [0, 1836351099 / 4294967296, 3856863483 / 4294967296],
      var_xs = [1, 351329573 / 335544320, 183557413 / 167772160],
      var_stats = \<lparr>Evaluations = 43, Rejections = 5, Steps = 2\<rparr>, var_s = ()\<rparr>"
  apply (subst steps.simps)
  apply (simp only: free_run_begin2 free_run_attempt2_1 option.case sum.case Let_def free_run_emit2)
  apply (simp add: advance_def power_def free_ctx_def free_run_root0 free_run_root1 run_simps eval_nat_numeral)
  done

lemma free_run_begin3:
  "begin_step free_ctx
     \<lparr>var_x = 183557413 / 167772160, var_h = 15785253 / 67108864, var_hmin = 1 / 281474976710656,
      var_y = [3856863483 / 4294967296], var_ynew = [3856863483 / 4294967296], var_xnew = 183557413 / 167772160, var_eps = 0,
      var_f = \<lparr>f1 = [10], f2 = [10], f3 = [10], f4 = [10], f5 = [10], f6 = [10], f7 = [10]\<rparr>,
      var_done = False, var_rejected = False, var_nc = 3, var_ys = [0, 1836351099 / 4294967296, 3856863483 / 4294967296],
      var_xs = [1, 351329573 / 335544320, 183557413 / 167772160],
      var_stats = \<lparr>Evaluations = 43, Rejections = 5, Steps = 2\<rparr>, var_s = ()\<rparr> =
     \<lparr>var_x = 183557413 / 167772160, var_h = 15785253 / 67108864, var_hmin = 1 / 281474976710656,
      var_y = [3856863483 / 4294967296], var_ynew = [3856863483 / 4294967296], var_xnew = 183557413 / 167772160, var_eps = 0,
      var_f = \<lparr>f1 = [10], f2 = [10], f3 = [10], f4 = [10], f5 = [10], f6 = [10], f7 = [10]\<rparr>,
      var_done = False, var_rejected = False, var_nc = 3, var_ys = [0, 1836351099 / 4294967296, 3856863483 / 4294967296],
      var_xs = [1, 351329573 / 335544320, 183557413 / 167772160],
      var_stats = \<lparr>Evaluations = 43, Rejections = 5, Steps = 3\<rparr>, var_s = ()\<rparr>"
  by (simp add: begin_step_def epsilon_def free_ctx_def run_simps)

lemma free_run_attempt3_1:
  "attempts free_ctx
     \<lparr>var_x = 183557413 / 167772160, var_h = 15785253 / 67108864, var_hmin = 1 / 281474976710656,
      var_y = [3856863483 / 4294967296], var_ynew = [3856863483 / 4294967296], var_xnew = 183557413 / 167772160, var_eps = 0,
      var_f = \<lparr>f1 = [10], f2 = [10], f3 = [10], f4 = [10], f5 = [10], f6 = [10], f7 = [10]\<rparr>,
      var_done = False, var_rejected = False, var_nc = 3, var_ys = [0, 1836351099 / 4294967296, 3856863483 / 4294967296],
      var_xs = [1, 351329573 / 335544320, 183557413 / 167772160],
      var_stats = \<lparr>Evaluations = 43, Rejections = 5, Steps = 3\<rparr>, var_s = ()\<rparr> =
   Some (Inr
     \<lparr>var_x = 183557413 / 167772160, var_h = 15785253 / 67108864, var_hmin = 1 / 281474976710656,
      var_y = [3856863483 / 4294967296], var_ynew = [13959425403 / 4294967296], var_xnew = 446041091 / 335544320, var_eps = 0,
      var_f = \<lparr>f1 = [10], f2 = [10], f3 = [10], f4 = [10], f5 = [10], f6 = [10], f7 = [10]\<rparr>,
      var_done = False, var_rejected = False, var_nc = 3, var_ys = [0, 1836351099 / 4294967296, 3856863483 / 4294967296],
      var_xs = [1, 351329573 / 335544320, 183557413 / 167772160],
      var_stats = \<lparr>Evaluations = 49, Rejections = 5, Steps = 3\<rparr>, var_s = ()\<rparr>)"
  by (subst attempts.simps) (simp add: attempt_simps free_ctx_def free_run_root0 free_run_root1)

lemma free_run_emit3:
  "emit free_ctx
     \<lparr>var_x = 183557413 / 167772160, var_h = 15785253 / 67108864, var_hmin = 1 / 281474976710656,
      var_y = [3856863483 / 4294967296], var_ynew = [13959425403 / 4294967296], var_xnew = 446041091 / 335544320, var_eps = 0,
      var_f = \<lparr>f1 = [10], f2 = [10], f3 = [10], f4 = [10], f5 = [10], f6 = [10], f7 = [10]\<rparr>,
      var_done = False, var_rejected = False, var_nc = 3, var_ys = [0, 1836351099 / 4294967296, 3856863483 / 4294967296],
      var_xs = [1, 351329573 / 335544320, 183557413 / 167772160],
      var_stats = \<lparr>Evaluations = 49, Rejections = 5, Steps = 3\<rparr>, var_s = ()\<rparr> =
     \<lparr>var_x = 183557413 / 167772160, var_h = 15785253 / 67108864, var_hmin = 1 / 281474976710656,
      var_y = [3856863483 / 4294967296], var_ynew = [13959425403 / 4294967296], var_xnew = 446041091 / 335544320, var_eps = 0,
      var_f = \<lparr>f1 = [10], f2 = [10], f3 = [10], f4 = [10], f5 = [10], f6 = [10], f7 = [10]\<rparr>,
      var_done = False, var_rejected = False, var_nc = 4, var_ys = [0, 1836351099 / 4294967296, 3856863483 / 4294967296, 13959425403 / 4294967296],
      var_xs = [1, 351329573 / 335544320, 183557413 / 167772160, 446041091 / 335544320],
      var_stats = \<lparr>Evaluations = 49, Rejections = 5, Steps = 3\<rparr>, var_s = ()\<rparr>"
  by (simp add: emit_def free_ctx_def)

lemma free_run_step3:
  "steps free_ctx
     \<lparr>var_x = 183557413 / 167772160, var_h = 15785253 / 67108864, var_hmin = 1 / 281474976710656,
      var_y = [3856863483 / 4294967296], var_ynew = [3856863483 / 4294967296], var_xnew = 183557413 / 167772160, var_eps = 0,
      var_f = \<lparr>f1 = [10], f2 = [10], f3 = [10], f4 = [10], f5 = [10], f6 = [10], f7 = [10]\<rparr>,
      var_done = False, var_rejected = False, var_nc = 3, var_ys = [0, 1836351099 / 4294967296, 3856863483 / 4294967296],
      var_xs = [1, 351329573 / 335544320, 183557413 / 167772160],
      var_stats = \<lparr>Evaluations = 43, Rejections = 5, Steps = 2\<rparr>, var_s = ()\<rparr> =
   steps free_ctx
     \<lparr>var_x = 446041091 / 335544320, var_h = 78926265 / 67108864, var_hmin = 1 / 281474976710656,
      var_y = [13959425403 / 4294967296], var_ynew = [13959425403 / 4294967296], var_xnew = 446041091 / 335544320, var_eps = 0,
      var_f = \<lparr>f1 = [10], f2 = [10], f3 = [10], f4 = [10], f5 = [10], f6 = [10], f7 = [10]\<rparr>,
      var_done = False, var_rejected = False, var_nc = 4, var_ys = [0, 1836351099 / 4294967296, 3856863483 / 4294967296, 13959425403 / 4294967296],
      var_xs = [1, 351329573 / 335544320, 183557413 / 167772160, 446041091 / 335544320],
      var_stats = \<lparr>Evaluations = 49, Rejections = 5, Steps = 3\<rparr>, var_s = ()\<rparr>"
  apply (subst steps.simps)
  apply (simp only: free_run_begin3 free_run_attempt3_1 option.case sum.case Let_def free_run_emit3)
  apply (simp add: advance_def power_def free_ctx_def free_run_root0 free_run_root1 run_simps eval_nat_numeral)
  done

lemma free_run_begin4:
  "begin_step free_ctx
     \<lparr>var_x = 446041091 / 335544320, var_h = 78926265 / 67108864, var_hmin = 1 / 281474976710656,
      var_y = [13959425403 / 4294967296], var_ynew = [13959425403 / 4294967296], var_xnew = 446041091 / 335544320, var_eps = 0,
      var_f = \<lparr>f1 = [10], f2 = [10], f3 = [10], f4 = [10], f5 = [10], f6 = [10], f7 = [10]\<rparr>,
      var_done = False, var_rejected = False, var_nc = 4, var_ys = [0, 1836351099 / 4294967296, 3856863483 / 4294967296, 13959425403 / 4294967296],
      var_xs = [1, 351329573 / 335544320, 183557413 / 167772160, 446041091 / 335544320],
      var_stats = \<lparr>Evaluations = 49, Rejections = 5, Steps = 3\<rparr>, var_s = ()\<rparr> =
     \<lparr>var_x = 446041091 / 335544320, var_h = 225047549 / 335544320, var_hmin = 1 / 281474976710656,
      var_y = [13959425403 / 4294967296], var_ynew = [13959425403 / 4294967296], var_xnew = 446041091 / 335544320, var_eps = 0,
      var_f = \<lparr>f1 = [10], f2 = [10], f3 = [10], f4 = [10], f5 = [10], f6 = [10], f7 = [10]\<rparr>,
      var_done = True, var_rejected = False, var_nc = 4, var_ys = [0, 1836351099 / 4294967296, 3856863483 / 4294967296, 13959425403 / 4294967296],
      var_xs = [1, 351329573 / 335544320, 183557413 / 167772160, 446041091 / 335544320],
      var_stats = \<lparr>Evaluations = 49, Rejections = 5, Steps = 4\<rparr>, var_s = ()\<rparr>"
  by (simp add: begin_step_def epsilon_def free_ctx_def run_simps)

lemma free_run_attempt4_1:
  "attempts free_ctx
     \<lparr>var_x = 446041091 / 335544320, var_h = 225047549 / 335544320, var_hmin = 1 / 281474976710656,
      var_y = [13959425403 / 4294967296], var_ynew = [13959425403 / 4294967296], var_xnew = 446041091 / 335544320, var_eps = 0,
      var_f = \<lparr>f1 = [10], f2 = [10], f3 = [10], f4 = [10], f5 = [10], f6 = [10], f7 = [10]\<rparr>,
      var_done = True, var_rejected = False, var_nc = 4, var_ys = [0, 1836351099 / 4294967296, 3856863483 / 4294967296, 13959425403 / 4294967296],
      var_xs = [1, 351329573 / 335544320, 183557413 / 167772160, 446041091 / 335544320],
      var_stats = \<lparr>Evaluations = 49, Rejections = 5, Steps = 4\<rparr>, var_s = ()\<rparr> =
   Some (Inr
     \<lparr>var_x = 446041091 / 335544320, var_h = 225047549 / 335544320, var_hmin = 1 / 281474976710656,
      var_y = [13959425403 / 4294967296], var_ynew = [42765511675 / 4294967296], var_xnew = 2, var_eps = 0,
      var_f = \<lparr>f1 = [10], f2 = [10], f3 = [10], f4 = [10], f5 = [10], f6 = [10], f7 = [10]\<rparr>,
      var_done = True, var_rejected = False, var_nc = 4, var_ys = [0, 1836351099 / 4294967296, 3856863483 / 4294967296, 13959425403 / 4294967296],
      var_xs = [1, 351329573 / 335544320, 183557413 / 167772160, 446041091 / 335544320],
      var_stats = \<lparr>Evaluations = 55, Rejections = 5, Steps = 4\<rparr>, var_s = ()\<rparr>)"
  by (subst attempts.simps) (simp add: attempt_simps free_ctx_def free_run_root0 free_run_root1)

lemma free_run_emit4:
  "emit free_ctx
     \<lparr>var_x = 446041091 / 335544320, var_h = 225047549 / 335544320, var_hmin = 1 / 281474976710656,
      var_y = [13959425403 / 4294967296], var_ynew = [42765511675 / 4294967296], var_xnew = 2, var_eps = 0,
      var_f = \<lparr>f1 = [10], f2 = [10], f3 = [10], f4 = [10], f5 = [10], f6 = [10], f7 = [10]\<rparr>,
      var_done = True, var_rejected = False, var_nc = 4, var_ys = [0, 1836351099 / 4294967296, 3856863483 / 4294967296, 13959425403 / 4294967296],
      var_xs = [1, 351329573 / 335544320, 183557413 / 167772160, 446041091 / 335544320],
      var_stats = \<lparr>Evaluations = 55, Rejections = 5, Steps = 4\<rparr>, var_s = ()\<rparr> =
     \<lparr>var_x = 446041091 / 335544320, var_h = 225047549 / 335544320, var_hmin = 1 / 281474976710656,
      var_y = [13959425403 / 4294967296], var_ynew = [42765511675 / 4294967296], var_xnew = 2, var_eps = 0,
      var_f = \<lparr>f1 = [10], f2 = [10], f3 = [10], f4 = [10], f5 = [10], f6 = [10], f7 = [10]\<rparr>,
      var_done = True, var_rejected = False, var_nc = 5, var_ys = [0, 1836351099 / 4294967296, 3856863483 / 4294967296, 13959425403 / 4294967296, 42765511675 / 4294967296],
      var_xs = [1, 351329573 / 335544320, 183557413 / 167772160, 446041091 / 335544320, 2],
      var_stats = \<lparr>Evaluations = 55, Rejections = 5, Steps = 4\<rparr>, var_s = ()\<rparr>"
  by (simp add: emit_def free_ctx_def)

lemma free_run_step4:
  "steps free_ctx
     \<lparr>var_x = 446041091 / 335544320, var_h = 78926265 / 67108864, var_hmin = 1 / 281474976710656,
      var_y = [13959425403 / 4294967296], var_ynew = [13959425403 / 4294967296], var_xnew = 446041091 / 335544320, var_eps = 0,
      var_f = \<lparr>f1 = [10], f2 = [10], f3 = [10], f4 = [10], f5 = [10], f6 = [10], f7 = [10]\<rparr>,
      var_done = False, var_rejected = False, var_nc = 4, var_ys = [0, 1836351099 / 4294967296, 3856863483 / 4294967296, 13959425403 / 4294967296],
      var_xs = [1, 351329573 / 335544320, 183557413 / 167772160, 446041091 / 335544320],
      var_stats = \<lparr>Evaluations = 49, Rejections = 5, Steps = 3\<rparr>, var_s = ()\<rparr> =
   Some \<lparr>ret_ys = Some [0, 1836351099 / 4294967296, 3856863483 / 4294967296, 13959425403 / 4294967296, 42765511675 / 4294967296],
       ret_xs = Some [1, 351329573 / 335544320, 183557413 / 167772160, 446041091 / 335544320, 2],
       ret_stats = Some \<lparr>Evaluations = 55, Rejections = 5, Steps = 4\<rparr>,
       ret_err = None\<rparr>"
  apply (subst steps.simps)
  apply (simp only: free_run_begin4 free_run_attempt4_1 option.case sum.case Let_def free_run_emit4)
  apply simp
  done

lemma free_run_steps:
  "steps free_ctx
     \<lparr>var_x = 1, var_h = 1, var_hmin = 0,
      var_y = [0], var_ynew = [0], var_xnew = 0, var_eps = 0,
      var_f = \<lparr>f1 = [0], f2 = [0], f3 = [0], f4 = [0], f5 = [0], f6 = [0], f7 = [0]\<rparr>,
      var_done = False, var_rejected = False, var_nc = 1, var_ys = [0],
      var_xs = [1],
      var_stats = \<lparr>Evaluations = 1, Rejections = 0, Steps = 0\<rparr>, var_s = ()\<rparr> =
   Some free_result"
  by (simp only: free_run_step1 free_run_step2 free_run_step3 free_run_step4 free_result_def)

lemma free_run:
  "ComputeWithStats exact \<lparr>config = sample_config\<rparr> (jump 1 10) () [0] [1, 2] = Some (Returns free_result)"
  by (rule ComputeWithStats_run [OF _ _ free_run_prepare free_run_steps])
    (simp_all add: exact_def sample_config_def)

lemma fixed_run_root0: "root5 (0) = 0"
  by (simp add: root5_def)

lemma fixed_run_prepare:
  "prepare exact \<lparr>config = half_config\<rparr> (jump 0 1) () [0] [1, 5 / 4, 3 / 2, 2] =
     (fixed_ctx,
      \<lparr>var_x = 1, var_h = 1 / 2, var_hmin = 0,
       var_y = [0], var_ynew = [0], var_xnew = 0, var_eps = 0,
       var_f = \<lparr>f1 = [1], f2 = [0], f3 = [0], f4 = [0], f5 = [0], f6 = [0], f7 = [0]\<rparr>,
       var_done = False, var_rejected = False, var_nc = 1, var_ys = [0, 0, 0, 0],
       var_xs = [1, 5 / 4, 3 / 2, 2],
       var_stats = \<lparr>Evaluations = 1, Rejections = 0, Steps = 0\<rparr>, var_s = ()\<rparr>)"
  by (simp add: prepare_def max_step_def initial_step_def fixed_ctx_def half_config_def run_simps)

lemma fixed_run_begin1:
  "begin_step fixed_ctx
     \<lparr>var_x = 1, var_h = 1 / 2, var_hmin = 0,
      var_y = [0], var_ynew = [0], var_xnew = 0, var_eps = 0,
      var_f = \<lparr>f1 = [1], f2 = [0], f3 = [0], f4 = [0], f5 = [0], f6 = [0], f7 = [0]\<rparr>,
      var_done = False, var_rejected = False, var_nc = 1, var_ys = [0, 0, 0, 0],
      var_xs = [1, 5 / 4, 3 / 2, 2],
      var_stats = \<lparr>Evaluations = 1, Rejections = 0, Steps = 0\<rparr>, var_s = ()\<rparr> =
     \<lparr>var_x = 1, var_h = 1 / 2, var_hmin = 1 / 281474976710656,
      var_y = [0], var_ynew = [0], var_xnew = 0, var_eps = 0,
      var_f = \<lparr>f1 = [1], f2 = [0], f3 = [0], f4 = [0], f5 = [0], f6 = [0], f7 = [0]\<rparr>,
      var_done = False, var_rejected = False, var_nc = 1, var_ys = [0, 0, 0, 0],
      var_xs = [1, 5 / 4, 3 / 2, 2],
      var_stats = \<lparr>Evaluations = 1, Rejections = 0, Steps = 1\<rparr>, var_s = ()\<rparr>"
  by (simp add: begin_step_def epsilon_def fixed_ctx_def run_simps)

lemma fixed_run_estimate1:
  "estimate fixed_ctx
     \<lparr>var_x = 1, var_h = 1 / 2, var_hmin = 1 / 281474976710656,
      var_y = [0], var_ynew = [0], var_xnew = 0, var_eps = 0,
      var_f = \<lparr>f1 = [1], f2 = [0], f3 = [0], f4 = [0], f5 = [0], f6 = [0], f7 = [0]\<rparr>,
      var_done = False, var_rejected = False, var_nc = 1, var_ys = [0, 0, 0, 0],
      var_xs = [1, 5 / 4, 3 / 2, 2],
      var_stats = \<lparr>Evaluations = 1, Rejections = 0, Steps = 1\<rparr>, var_s = ()\<rparr> =
     \<lparr>var_x = 1, var_h = 1 / 2, var_hmin = 1 / 281474976710656,
      var_y = [0], var_ynew = [1 / 2], var_xnew = 3 / 2, var_eps = 0,
      var_f = \<lparr>f1 = [1], f2 = [1], f3 = [1], f4 = [1], f5 = [1], f6 = [1], f7 = [1]\<rparr>,
      var_done = False, var_rejected = False, var_nc = 1, var_ys = [0, 0, 0, 0],
      var_xs = [1, 5 / 4, 3 / 2, 2],
      var_stats = \<lparr>Evaluations = 7, Rejections = 0, Steps = 1\<rparr>, var_s = ()\<rparr>"
  by (simp add: estimate_def attempt_simps fixed_ctx_def)

lemma fixed_run_attempt1_1:
  "attempts fixed_ctx
     \<lparr>var_x = 1, var_h = 1 / 2, var_hmin = 1 / 281474976710656,
      var_y = [0], var_ynew = [0], var_xnew = 0, var_eps = 0,
      var_f = \<lparr>f1 = [1], f2 = [0], f3 = [0], f4 = [0], f5 = [0], f6 = [0], f7 = [0]\<rparr>,
      var_done = False, var_rejected = False, var_nc = 1, var_ys = [0, 0, 0, 0],
      var_xs = [1, 5 / 4, 3 / 2, 2],
      var_stats = \<lparr>Evaluations = 1, Rejections = 0, Steps = 1\<rparr>, var_s = ()\<rparr> =
   Some (Inr
     \<lparr>var_x = 1, var_h = 1 / 2, var_hmin = 1 / 281474976710656,
      var_y = [0], var_ynew = [1 / 2], var_xnew = 3 / 2, var_eps = 0,
      var_f = \<lparr>f1 = [1], f2 = [1], f3 = [1], f4 = [1], f5 = [1], f6 = [1], f7 = [1]\<rparr>,
      var_done = False, var_rejected = False, var_nc = 1, var_ys = [0, 0, 0, 0],
      var_xs = [1, 5 / 4, 3 / 2, 2],
      var_stats = \<lparr>Evaluations = 7, Rejections = 0, Steps = 1\<rparr>, var_s = ()\<rparr>)"
  by (subst attempts.simps) (simp add: attempt_simps fixed_ctx_def fixed_run_root0)

lemma fixed_run_emit1:
  "emit fixed_ctx
     \<lparr>var_x = 1, var_h = 1 / 2, var_hmin = 1 / 281474976710656,
      var_y = [0], var_ynew = [1 / 2], var_xnew = 3 / 2, var_eps = 0,
      var_f = \<lparr>f1 = [1], f2 = [1], f3 = [1], f4 = [1], f5 = [1], f6 = [1], f7 = [1]\<rparr>,
      var_done = False, var_rejected = False, var_nc = 1, var_ys = [0, 0, 0, 0],
      var_xs = [1, 5 / 4, 3 / 2, 2],
      var_stats = \<lparr>Evaluations = 7, Rejections = 0, Steps = 1\<rparr>, var_s = ()\<rparr> =
     \<lparr>var_x = 1, var_h = 1 / 2, var_hmin = 1 / 281474976710656,
      var_y = [0], var_ynew = [1 / 2], var_xnew = 3 / 2, var_eps = 0,
      var_f = \<lparr>f1 = [1], f2 = [1], f3 = [1], f4 = [1], f5 = [1], f6 = [1], f7 = [1]\<rparr>,
      var_done = False, var_rejected = False, var_nc = 3, var_ys = [0, 1 / 4, 1 / 2, 0],
      var_xs = [1, 5 / 4, 3 / 2, 2],
      var_stats = \<lparr>Evaluations = 7, Rejections = 0, Steps = 1\<rparr>, var_s = ()\<rparr>"
  unfolding emit_def
  apply (simp add: fixed_ctx_def)
  apply (subst fill.simps, simp add: fill_simps fixed_ctx_def)+
  done

lemma fixed_run_step1:
  "steps fixed_ctx
     \<lparr>var_x = 1, var_h = 1 / 2, var_hmin = 0,
      var_y = [0], var_ynew = [0], var_xnew = 0, var_eps = 0,
      var_f = \<lparr>f1 = [1], f2 = [0], f3 = [0], f4 = [0], f5 = [0], f6 = [0], f7 = [0]\<rparr>,
      var_done = False, var_rejected = False, var_nc = 1, var_ys = [0, 0, 0, 0],
      var_xs = [1, 5 / 4, 3 / 2, 2],
      var_stats = \<lparr>Evaluations = 1, Rejections = 0, Steps = 0\<rparr>, var_s = ()\<rparr> =
   steps fixed_ctx
     \<lparr>var_x = 3 / 2, var_h = 5 / 2, var_hmin = 1 / 281474976710656,
      var_y = [1 / 2], var_ynew = [1 / 2], var_xnew = 3 / 2, var_eps = 0,
      var_f = \<lparr>f1 = [1], f2 = [1], f3 = [1], f4 = [1], f5 = [1], f6 = [1], f7 = [1]\<rparr>,
      var_done = False, var_rejected = False, var_nc = 3, var_ys = [0, 1 / 4, 1 / 2, 0],
      var_xs = [1, 5 / 4, 3 / 2, 2],
      var_stats = \<lparr>Evaluations = 7, Rejections = 0, Steps = 1\<rparr>, var_s = ()\<rparr>"
  apply (subst steps.simps)
  apply (simp only: fixed_run_begin1 fixed_run_attempt1_1 option.case sum.case Let_def fixed_run_emit1)
  apply (simp add: advance_def power_def fixed_ctx_def fixed_run_root0 run_simps eval_nat_numeral)
  done

lemma fixed_run_begin2:
  "begin_step fixed_ctx
     \<lparr>var_x = 3 / 2, var_h = 5 / 2, var_hmin = 1 / 281474976710656,
      var_y = [1 / 2], var_ynew = [1 / 2], var_xnew = 3 / 2, var_eps = 0,
      var_f = \<lparr>f1 = [1], f2 = [1], f3 = [1], f4 = [1], f5 = [1], f6 = [1], f7 = [1]\<rparr>,
      var_done = False, var_rejected = False, var_nc = 3, var_ys = [0, 1 / 4, 1 / 2, 0],
      var_xs = [1, 5 / 4, 3 / 2, 2],
      var_stats = \<lparr>Evaluations = 7, Rejections = 0, Steps = 1\<rparr>, var_s = ()\<rparr> =
     \<lparr>var_x = 3 / 2, var_h = 1 / 2, var_hmin = 1 / 281474976710656,
      var_y = [1 / 2], var_ynew = [1 / 2], var_xnew = 3 / 2, var_eps = 0,
      var_f = \<lparr>f1 = [1], f2 = [1], f3 = [1], f4 = [1], f5 = [1], f6 = [1], f7 = [1]\<rparr>,
      var_done = True, var_rejected = False, var_nc = 3, var_ys = [0, 1 / 4, 1 / 2, 0],
      var_xs = [1, 5 / 4, 3 / 2, 2],
      var_stats = \<lparr>Evaluations = 7, Rejections = 0, Steps = 2\<rparr>, var_s = ()\<rparr>"
  by (simp add: begin_step_def epsilon_def fixed_ctx_def run_simps)

lemma fixed_run_attempt2_1:
  "attempts fixed_ctx
     \<lparr>var_x = 3 / 2, var_h = 1 / 2, var_hmin = 1 / 281474976710656,
      var_y = [1 / 2], var_ynew = [1 / 2], var_xnew = 3 / 2, var_eps = 0,
      var_f = \<lparr>f1 = [1], f2 = [1], f3 = [1], f4 = [1], f5 = [1], f6 = [1], f7 = [1]\<rparr>,
      var_done = True, var_rejected = False, var_nc = 3, var_ys = [0, 1 / 4, 1 / 2, 0],
      var_xs = [1, 5 / 4, 3 / 2, 2],
      var_stats = \<lparr>Evaluations = 7, Rejections = 0, Steps = 2\<rparr>, var_s = ()\<rparr> =
   Some (Inr
     \<lparr>var_x = 3 / 2, var_h = 1 / 2, var_hmin = 1 / 281474976710656,
      var_y = [1 / 2], var_ynew = [1], var_xnew = 2, var_eps = 0,
      var_f = \<lparr>f1 = [1], f2 = [1], f3 = [1], f4 = [1], f5 = [1], f6 = [1], f7 = [1]\<rparr>,
      var_done = True, var_rejected = False, var_nc = 3, var_ys = [0, 1 / 4, 1 / 2, 0],
      var_xs = [1, 5 / 4, 3 / 2, 2],
      var_stats = \<lparr>Evaluations = 13, Rejections = 0, Steps = 2\<rparr>, var_s = ()\<rparr>)"
  by (subst attempts.simps) (simp add: attempt_simps fixed_ctx_def fixed_run_root0)

lemma fixed_run_emit2:
  "emit fixed_ctx
     \<lparr>var_x = 3 / 2, var_h = 1 / 2, var_hmin = 1 / 281474976710656,
      var_y = [1 / 2], var_ynew = [1], var_xnew = 2, var_eps = 0,
      var_f = \<lparr>f1 = [1], f2 = [1], f3 = [1], f4 = [1], f5 = [1], f6 = [1], f7 = [1]\<rparr>,
      var_done = True, var_rejected = False, var_nc = 3, var_ys = [0, 1 / 4, 1 / 2, 0],
      var_xs = [1, 5 / 4, 3 / 2, 2],
      var_stats = \<lparr>Evaluations = 13, Rejections = 0, Steps = 2\<rparr>, var_s = ()\<rparr> =
     \<lparr>var_x = 3 / 2, var_h = 1 / 2, var_hmin = 1 / 281474976710656,
      var_y = [1 / 2], var_ynew = [1], var_xnew = 2, var_eps = 0,
      var_f = \<lparr>f1 = [1], f2 = [1], f3 = [1], f4 = [1], f5 = [1], f6 = [1], f7 = [1]\<rparr>,
      var_done = True, var_rejected = False, var_nc = 4, var_ys = [0, 1 / 4, 1 / 2, 1],
      var_xs = [1, 5 / 4, 3 / 2, 2],
      var_stats = \<lparr>Evaluations = 13, Rejections = 0, Steps = 2\<rparr>, var_s = ()\<rparr>"
  unfolding emit_def
  apply (simp add: fixed_ctx_def)
  apply (subst fill.simps, simp add: fill_simps fixed_ctx_def)+
  done

lemma fixed_run_step2:
  "steps fixed_ctx
     \<lparr>var_x = 3 / 2, var_h = 5 / 2, var_hmin = 1 / 281474976710656,
      var_y = [1 / 2], var_ynew = [1 / 2], var_xnew = 3 / 2, var_eps = 0,
      var_f = \<lparr>f1 = [1], f2 = [1], f3 = [1], f4 = [1], f5 = [1], f6 = [1], f7 = [1]\<rparr>,
      var_done = False, var_rejected = False, var_nc = 3, var_ys = [0, 1 / 4, 1 / 2, 0],
      var_xs = [1, 5 / 4, 3 / 2, 2],
      var_stats = \<lparr>Evaluations = 7, Rejections = 0, Steps = 1\<rparr>, var_s = ()\<rparr> =
   Some \<lparr>ret_ys = Some [0, 1 / 4, 1 / 2, 1],
       ret_xs = Some [1, 5 / 4, 3 / 2, 2],
       ret_stats = Some \<lparr>Evaluations = 13, Rejections = 0, Steps = 2\<rparr>,
       ret_err = None\<rparr>"
  apply (subst steps.simps)
  apply (simp only: fixed_run_begin2 fixed_run_attempt2_1 option.case sum.case Let_def fixed_run_emit2)
  apply simp
  done

lemma fixed_run_steps:
  "steps fixed_ctx
     \<lparr>var_x = 1, var_h = 1 / 2, var_hmin = 0,
      var_y = [0], var_ynew = [0], var_xnew = 0, var_eps = 0,
      var_f = \<lparr>f1 = [1], f2 = [0], f3 = [0], f4 = [0], f5 = [0], f6 = [0], f7 = [0]\<rparr>,
      var_done = False, var_rejected = False, var_nc = 1, var_ys = [0, 0, 0, 0],
      var_xs = [1, 5 / 4, 3 / 2, 2],
      var_stats = \<lparr>Evaluations = 1, Rejections = 0, Steps = 0\<rparr>, var_s = ()\<rparr> =
   Some fixed_result"
  by (simp only: fixed_run_step1 fixed_run_step2 fixed_result_def)

lemma fixed_run:
  "ComputeWithStats exact \<lparr>config = half_config\<rparr> (jump 0 1) () [0] [1, 5 / 4, 3 / 2, 2] = Some (Returns fixed_result)"
  by (rule ComputeWithStats_run [OF _ _ fixed_run_prepare fixed_run_steps])
    (simp_all add: exact_def half_config_def)

lemma underflow_run_prepare:
  "prepare exact \<lparr>config = tiny_config\<rparr> (jump 1 (10 ^ 15)) () [0] [1, 2] =
     (underflow_ctx,
      \<lparr>var_x = 1, var_h = 1 / 1125899906842624, var_hmin = 0,
       var_y = [0], var_ynew = [0], var_xnew = 0, var_eps = 0,
       var_f = \<lparr>f1 = [0], f2 = [0], f3 = [0], f4 = [0], f5 = [0], f6 = [0], f7 = [0]\<rparr>,
       var_done = False, var_rejected = False, var_nc = 1, var_ys = [0],
       var_xs = [1],
       var_stats = \<lparr>Evaluations = 1, Rejections = 0, Steps = 0\<rparr>, var_s = ()\<rparr>)"
  by (simp add: prepare_def max_step_def initial_step_def underflow_ctx_def tiny_config_def run_simps)

lemma underflow_run_begin1:
  "begin_step underflow_ctx
     \<lparr>var_x = 1, var_h = 1 / 1125899906842624, var_hmin = 0,
      var_y = [0], var_ynew = [0], var_xnew = 0, var_eps = 0,
      var_f = \<lparr>f1 = [0], f2 = [0], f3 = [0], f4 = [0], f5 = [0], f6 = [0], f7 = [0]\<rparr>,
      var_done = False, var_rejected = False, var_nc = 1, var_ys = [0],
      var_xs = [1],
      var_stats = \<lparr>Evaluations = 1, Rejections = 0, Steps = 0\<rparr>, var_s = ()\<rparr> =
     \<lparr>var_x = 1, var_h = 1 / 281474976710656, var_hmin = 1 / 281474976710656,
      var_y = [0], var_ynew = [0], var_xnew = 0, var_eps = 0,
      var_f = \<lparr>f1 = [0], f2 = [0], f3 = [0], f4 = [0], f5 = [0], f6 = [0], f7 = [0]\<rparr>,
      var_done = False, var_rejected = False, var_nc = 1, var_ys = [0],
      var_xs = [1],
      var_stats = \<lparr>Evaluations = 1, Rejections = 0, Steps = 1\<rparr>, var_s = ()\<rparr>"
  by (simp add: begin_step_def epsilon_def underflow_ctx_def run_simps)


lemma underflow_run_attempt1_1:
  "attempts underflow_ctx
     \<lparr>var_x = 1, var_h = 1 / 281474976710656, var_hmin = 1 / 281474976710656,
      var_y = [0], var_ynew = [0], var_xnew = 0, var_eps = 0,
      var_f = \<lparr>f1 = [0], f2 = [0], f3 = [0], f4 = [0], f5 = [0], f6 = [0], f7 = [0]\<rparr>,
      var_done = False, var_rejected = False, var_nc = 1, var_ys = [0],
      var_xs = [1],
      var_stats = \<lparr>Evaluations = 1, Rejections = 0, Steps = 1\<rparr>, var_s = ()\<rparr> =
   Some (Inl \<lparr>Evaluations = 7, Rejections = 1, Steps = 1\<rparr>)"
  by (subst attempts.simps) (simp add: attempt_simps underflow_ctx_def )

lemma underflow_run_step1:
  "steps underflow_ctx
     \<lparr>var_x = 1, var_h = 1 / 1125899906842624, var_hmin = 0,
      var_y = [0], var_ynew = [0], var_xnew = 0, var_eps = 0,
      var_f = \<lparr>f1 = [0], f2 = [0], f3 = [0], f4 = [0], f5 = [0], f6 = [0], f7 = [0]\<rparr>,
      var_done = False, var_rejected = False, var_nc = 1, var_ys = [0],
      var_xs = [1],
      var_stats = \<lparr>Evaluations = 1, Rejections = 0, Steps = 0\<rparr>, var_s = ()\<rparr> =
   Some \<lparr>ret_ys = None,
       ret_xs = None,
       ret_stats = Some \<lparr>Evaluations = 7, Rejections = 1, Steps = 1\<rparr>,
       ret_err = Some underflow\<rparr>"
  by (subst steps.simps) (simp only: underflow_run_begin1 underflow_run_attempt1_1 option.case sum.case)

lemma underflow_run_steps:
  "steps underflow_ctx
     \<lparr>var_x = 1, var_h = 1 / 1125899906842624, var_hmin = 0,
      var_y = [0], var_ynew = [0], var_xnew = 0, var_eps = 0,
      var_f = \<lparr>f1 = [0], f2 = [0], f3 = [0], f4 = [0], f5 = [0], f6 = [0], f7 = [0]\<rparr>,
      var_done = False, var_rejected = False, var_nc = 1, var_ys = [0],
      var_xs = [1],
      var_stats = \<lparr>Evaluations = 1, Rejections = 0, Steps = 0\<rparr>, var_s = ()\<rparr> =
   Some underflow_result"
  by (simp only: underflow_run_step1 underflow_result_def)

lemma underflow_run:
  "ComputeWithStats exact \<lparr>config = tiny_config\<rparr> (jump 1 (10 ^ 15)) () [0] [1, 2] = Some (Returns underflow_result)"
  by (rule ComputeWithStats_run [OF _ _ underflow_run_prepare underflow_run_steps])
    (simp_all add: exact_def tiny_config_def)

lemma down_run_prepare:
  "prepare exact \<lparr>config = sample_config\<rparr> (jump 1 10) () [0] [3 / 2, 1] =
     (down_ctx,
      \<lparr>var_x = 3 / 2, var_h = 1, var_hmin = 0,
       var_y = [0], var_ynew = [0], var_xnew = 0, var_eps = 0,
       var_f = \<lparr>f1 = [10], f2 = [0], f3 = [0], f4 = [0], f5 = [0], f6 = [0], f7 = [0]\<rparr>,
       var_done = False, var_rejected = False, var_nc = 1, var_ys = [0],
       var_xs = [3 / 2],
       var_stats = \<lparr>Evaluations = 1, Rejections = 0, Steps = 0\<rparr>, var_s = ()\<rparr>)"
  by (simp add: prepare_def max_step_def initial_step_def down_ctx_def sample_config_def run_simps)

lemma down_run_begin1:
  "begin_step down_ctx
     \<lparr>var_x = 3 / 2, var_h = 1, var_hmin = 0,
      var_y = [0], var_ynew = [0], var_xnew = 0, var_eps = 0,
      var_f = \<lparr>f1 = [10], f2 = [0], f3 = [0], f4 = [0], f5 = [0], f6 = [0], f7 = [0]\<rparr>,
      var_done = False, var_rejected = False, var_nc = 1, var_ys = [0],
      var_xs = [3 / 2],
      var_stats = \<lparr>Evaluations = 1, Rejections = 0, Steps = 0\<rparr>, var_s = ()\<rparr> =
     \<lparr>var_x = 3 / 2, var_h = - (1 / 2), var_hmin = 1 / 281474976710656,
      var_y = [0], var_ynew = [0], var_xnew = 0, var_eps = 0,
      var_f = \<lparr>f1 = [10], f2 = [0], f3 = [0], f4 = [0], f5 = [0], f6 = [0], f7 = [0]\<rparr>,
      var_done = True, var_rejected = False, var_nc = 1, var_ys = [0],
      var_xs = [3 / 2],
      var_stats = \<lparr>Evaluations = 1, Rejections = 0, Steps = 1\<rparr>, var_s = ()\<rparr>"
  by (simp add: begin_step_def epsilon_def down_ctx_def run_simps)


lemma down_run_attempt1_1:
  "attempts down_ctx
     \<lparr>var_x = 3 / 2, var_h = - (1 / 2), var_hmin = 1 / 281474976710656,
      var_y = [0], var_ynew = [0], var_xnew = 0, var_eps = 0,
      var_f = \<lparr>f1 = [10], f2 = [0], f3 = [0], f4 = [0], f5 = [0], f6 = [0], f7 = [0]\<rparr>,
      var_done = True, var_rejected = False, var_nc = 1, var_ys = [0],
      var_xs = [3 / 2],
      var_stats = \<lparr>Evaluations = 1, Rejections = 0, Steps = 1\<rparr>, var_s = ()\<rparr> =
   Some (Inr
     \<lparr>var_x = 3 / 2, var_h = - (1 / 2), var_hmin = 1 / 281474976710656,
      var_y = [0], var_ynew = [- (365 / 84)], var_xnew = 1, var_eps = 0,
      var_f = \<lparr>f1 = [10], f2 = [10], f3 = [10], f4 = [10], f5 = [10], f6 = [0], f7 = [0]\<rparr>,
      var_done = True, var_rejected = False, var_nc = 1, var_ys = [0],
      var_xs = [3 / 2],
      var_stats = \<lparr>Evaluations = 7, Rejections = 0, Steps = 1\<rparr>, var_s = ()\<rparr>)"
  by (subst attempts.simps) (simp add: attempt_simps down_ctx_def )

lemma down_run_emit1:
  "emit down_ctx
     \<lparr>var_x = 3 / 2, var_h = - (1 / 2), var_hmin = 1 / 281474976710656,
      var_y = [0], var_ynew = [- (365 / 84)], var_xnew = 1, var_eps = 0,
      var_f = \<lparr>f1 = [10], f2 = [10], f3 = [10], f4 = [10], f5 = [10], f6 = [0], f7 = [0]\<rparr>,
      var_done = True, var_rejected = False, var_nc = 1, var_ys = [0],
      var_xs = [3 / 2],
      var_stats = \<lparr>Evaluations = 7, Rejections = 0, Steps = 1\<rparr>, var_s = ()\<rparr> =
     \<lparr>var_x = 3 / 2, var_h = - (1 / 2), var_hmin = 1 / 281474976710656,
      var_y = [0], var_ynew = [- (365 / 84)], var_xnew = 1, var_eps = 0,
      var_f = \<lparr>f1 = [10], f2 = [10], f3 = [10], f4 = [10], f5 = [10], f6 = [0], f7 = [0]\<rparr>,
      var_done = True, var_rejected = False, var_nc = 2, var_ys = [0, - (365 / 84)],
      var_xs = [3 / 2, 1],
      var_stats = \<lparr>Evaluations = 7, Rejections = 0, Steps = 1\<rparr>, var_s = ()\<rparr>"
  by (simp add: emit_def down_ctx_def)

lemma down_run_step1:
  "steps down_ctx
     \<lparr>var_x = 3 / 2, var_h = 1, var_hmin = 0,
      var_y = [0], var_ynew = [0], var_xnew = 0, var_eps = 0,
      var_f = \<lparr>f1 = [10], f2 = [0], f3 = [0], f4 = [0], f5 = [0], f6 = [0], f7 = [0]\<rparr>,
      var_done = False, var_rejected = False, var_nc = 1, var_ys = [0],
      var_xs = [3 / 2],
      var_stats = \<lparr>Evaluations = 1, Rejections = 0, Steps = 0\<rparr>, var_s = ()\<rparr> =
   Some \<lparr>ret_ys = Some [0, - (365 / 84)],
       ret_xs = Some [3 / 2, 1],
       ret_stats = Some \<lparr>Evaluations = 7, Rejections = 0, Steps = 1\<rparr>,
       ret_err = None\<rparr>"
  apply (subst steps.simps)
  apply (simp only: down_run_begin1 down_run_attempt1_1 option.case sum.case Let_def down_run_emit1)
  apply simp
  done

lemma down_run_steps:
  "steps down_ctx
     \<lparr>var_x = 3 / 2, var_h = 1, var_hmin = 0,
      var_y = [0], var_ynew = [0], var_xnew = 0, var_eps = 0,
      var_f = \<lparr>f1 = [10], f2 = [0], f3 = [0], f4 = [0], f5 = [0], f6 = [0], f7 = [0]\<rparr>,
      var_done = False, var_rejected = False, var_nc = 1, var_ys = [0],
      var_xs = [3 / 2],
      var_stats = \<lparr>Evaluations = 1, Rejections = 0, Steps = 0\<rparr>, var_s = ()\<rparr> =
   Some down_result"
  by (simp only: down_run_step1 down_result_def)

lemma down_run:
  "ComputeWithStats exact \<lparr>config = sample_config\<rparr> (jump 1 10) () [0] [3 / 2, 1] = Some (Returns down_result)"
  by (rule ComputeWithStats_run [OF _ _ down_run_prepare down_run_steps])
    (simp_all add: exact_def sample_config_def)

section \<open>The first step of the free run\<close>

lemma free_first_step:
  "attempts free_ctx (begin_step free_ctx free_start) = Some (Inr free_accepted)"
  by (simp only: free_start_def free_accepted_def free_run_begin1 free_run_attempt1_1
      free_run_attempt1_2 free_run_attempt1_3 free_run_attempt1_4 free_run_attempt1_5
      free_run_attempt1_6)

lemma free_first_emit: "\<not> var_done (emit free_ctx free_accepted)"
  by (simp add: emit_keeps free_accepted_def)

lemma free_prepare:
  "prepare exact \<lparr>config = sample_config\<rparr> (jump 1 10) () [0] [1, 2] = (free_ctx, free_start)"
  by (simp only: free_run_prepare free_start_def)

lemma free_first_root: "root5 (622640535 / 1073741824) = 15044833 / 16777216"
  by code_simp

section \<open>The first trial of the free run and of the run that underflows\<close>





section \<open>The first trial of the backward run\<close>

lemma root5_relerr: "root5 (1 / 1000) = 2107123 / 8388608"
  by code_simp





section \<open>The run with a derivative that is not a number\<close>










section \<open>Claims about what a call returns\<close>

text \<open>
  C10. Whenever ComputeWithStats returns without an error, the statistics it returns
  satisfy \<open>Evaluations = 1 + 6 * (Steps + Rejections)\<close>: the evaluation before the loop and
  six for every trial step, accepted or rejected. The equation is one of \<^verbatim>\<open>uint\<close> values,
  so it also holds when a counter has wrapped around.
\<close>

theorem evaluations_identity:
  assumes "ComputeWithStats E self dydx s0 y0 xs = Some (Returns r)"
    and "ret_err r = None"
  shows "\<exists>st. ret_stats r = Some st \<and>
           Evaluations st = 1 + 6 * (Steps st + Rejections st)"
proof -
  from ComputeWithStats_result [OF assms(1)] assms(2) have "succeeded r"
    by (auto simp: underflowed_def)
  then show ?thesis
    by (auto simp: succeeded_def settled_def)
qed

theorem evaluations_identity_witness:
  "ComputeWithStats exact \<lparr>config = sample_config\<rparr> (jump 1 10) () [0] [1, 2] =
     Some (Returns free_result) \<and>
   ret_err free_result = None \<and>
   (\<exists>st. ret_stats free_result = Some st \<and>
      Evaluations st = 1 + 6 * (Steps st + Rejections st))"
proof -
  have ok: "ret_err free_result = None"
    by (simp add: free_result_def)
  from evaluations_identity [OF free_run ok] free_run ok show ?thesis
    by simp
qed

text \<open>
  C2, as the code has it. When ComputeWithStats returns an error, the error is the
  step-size underflow, the solution and the grid are \<^verbatim>\<open>nil\<close>, and the statistics are
  returned with the error: the claim that no statistics are returned fails. The counters
  returned are the ones accumulated up to the failure: every step and every rejection has
  been counted, and the six evaluations of every trial but one step's accepted trial,
  which the failing step does not have, so \<open>Evaluations + 6 = 1 + 6 * (Steps + Rejections)\<close>
  (an equation of \<^verbatim>\<open>uint\<close> values).
\<close>

theorem underflow_returns_statistics_counterexample:
  "ComputeWithStats exact \<lparr>config = tiny_config\<rparr> (jump 1 (10 ^ 15)) () [0] [1, 2] =
     Some (Returns \<lparr>ret_ys = None, ret_xs = None,
       ret_stats = Some \<lparr>Evaluations = 7, Rejections = 1, Steps = 1\<rparr>,
       ret_err = Some underflow\<rparr>)"
  using underflow_run by (simp only: underflow_result_def)

theorem underflow_outcome:
  assumes "ComputeWithStats E self dydx s0 y0 xs = Some (Returns r)"
    and "ret_err r \<noteq> None"
  shows "ret_err r = Some underflow \<and> ret_ys r = None \<and> ret_xs r = None \<and>
         (\<exists>st. ret_stats r = Some st \<and>
            Evaluations st + 6 = 1 + 6 * (Steps st + Rejections st))"
proof -
  from ComputeWithStats_result [OF assms(1)] assms(2) have "underflowed r"
    by (auto simp: succeeded_def)
  then show ?thesis
    by (auto simp: underflowed_def pending_def)
qed

theorem underflow_outcome_witness:
  "ComputeWithStats exact \<lparr>config = tiny_config\<rparr> (jump 1 (10 ^ 15)) () [0] [1, 2] =
     Some (Returns underflow_result) \<and>
   ret_err underflow_result \<noteq> None \<and>
   ret_err underflow_result = Some underflow \<and> ret_ys underflow_result = None \<and>
   ret_xs underflow_result = None \<and>
   ret_stats underflow_result = Some \<lparr>Evaluations = 7, Rejections = 1, Steps = 1\<rparr> \<and>
   (\<exists>st. ret_stats underflow_result = Some st \<and>
      Evaluations st + 6 = 1 + 6 * (Steps st + Rejections st))"
proof -
  have failed: "ret_err underflow_result \<noteq> None"
    by (simp add: underflow_result_def)
  have st: "ret_stats underflow_result = Some \<lparr>Evaluations = 7, Rejections = 1, Steps = 1\<rparr>"
    by (simp add: underflow_result_def)
  from underflow_outcome [OF underflow_run failed] underflow_run failed st show ?thesis
    by simp
qed

text \<open>
  C9. Compute returns what ComputeWithStats returns on the same inputs, without the
  statistics: the same solution, grid and error; it panics exactly when ComputeWithStats
  panics and fails to return exactly when ComputeWithStats fails to return.
\<close>

theorem Compute_is_ComputeWithStats:
  "(Compute E self dydx s0 y0 xs = Some (Returns (ys, xs', err))) =
     (\<exists>st. ComputeWithStats E self dydx s0 y0 xs =
        Some (Returns \<lparr>ret_ys = ys, ret_xs = xs', ret_stats = st, ret_err = err\<rparr>)) \<and>
   (Compute E self dydx s0 y0 xs = Some Panics) =
     (ComputeWithStats E self dydx s0 y0 xs = Some Panics) \<and>
   (Compute E self dydx s0 y0 xs = None) = (ComputeWithStats E self dydx s0 y0 xs = None)"
proof (cases "ComputeWithStats E self dydx s0 y0 xs")
  case None
  then show ?thesis by (simp add: Compute_def)
next
  case (Some out)
  show ?thesis
  proof (cases out)
    case Panics
    with Some show ?thesis by (simp add: Compute_def)
  next
    case (Returns r)
    have "(ret_ys r = ys \<and> ret_xs r = xs' \<and> ret_err r = err) =
          (\<exists>st. r = \<lparr>ret_ys = ys, ret_xs = xs', ret_stats = st, ret_err = err\<rparr>)"
      by (cases r) auto
    with Some Returns show ?thesis by (simp add: Compute_def)
  qed
qed

text \<open>
  C5, as the code has it. A step can be rejected several times, so \<open>Rejections\<close> is not
  bounded by \<open>Steps\<close>: \<open>free_run\<close> returns 5 rejections in 4 steps. What holds of the
  statistics of every call that returns, with or without an error: as long as the \<^verbatim>\<open>uint\<close>
  counters have not wrapped around (after a failure the counter of rejections is then not
  0), \<open>Evaluations\<close> is at least \<open>6 * Steps\<close>, and after a success also at least
  \<open>6 * Rejections\<close>.
\<close>

theorem rejections_exceed_steps_counterexample:
  "ComputeWithStats exact \<lparr>config = sample_config\<rparr> (jump 1 10) () [0] [1, 2] =
     Some (Returns free_result) \<and>
   ret_err free_result = None \<and>
   ret_stats free_result = Some \<lparr>Evaluations = 55, Rejections = 5, Steps = 4\<rparr> \<and>
   \<not> (5 :: uint) \<le> 4"
  using free_run by (simp add: free_result_def)

theorem statistics_bounds:
  assumes "ComputeWithStats E self dydx s0 y0 xs = Some (Returns r)"
    and "ret_stats r = Some st"
    and "1 + 6 * (unat (Steps st) + unat (Rejections st)) < 2 ^ 64"
    and "ret_err r = None \<or> Rejections st \<noteq> 0"
  shows "6 * unat (Steps st) \<le> unat (Evaluations st) \<and>
         (ret_err r = None \<longrightarrow> 6 * unat (Rejections st) \<le> unat (Evaluations st))"
proof -
  from ComputeWithStats_result [OF assms(1)] show ?thesis
  proof
    assume "succeeded r"
    with assms(2) have "settled st" and "ret_err r = None"
      by (auto simp: succeeded_def)
    with settled_unat [OF _ assms(3)] show ?thesis by simp
  next
    assume "underflowed r"
    with assms(2) have p: "pending st" and failed: "ret_err r \<noteq> None"
      by (auto simp: underflowed_def)
    with assms(4) have "Rejections st \<noteq> 0" by simp
    then have "0 < unat (Rejections st)"
      by (simp add: unat_gt_0)
    with pending_unat [OF p assms(3) \<open>Rejections st \<noteq> 0\<close>] failed show ?thesis
      by auto
  qed
qed

theorem statistics_bounds_witness:
  "ComputeWithStats exact \<lparr>config = tiny_config\<rparr> (jump 1 (10 ^ 15)) () [0] [1, 2] =
     Some (Returns underflow_result) \<and>
   ret_stats underflow_result = Some \<lparr>Evaluations = 7, Rejections = 1, Steps = 1\<rparr> \<and>
   1 + 6 * (unat (1 :: uint) + unat (1 :: uint)) < (2 :: nat) ^ 64 \<and>
   (1 :: uint) \<noteq> 0 \<and>
   6 * unat (1 :: uint) \<le> unat (7 :: uint)"
proof -
  have st: "ret_stats underflow_result = Some \<lparr>Evaluations = 7, Rejections = 1, Steps = 1\<rparr>"
    by (simp add: underflow_result_def)
  have "6 * unat (Steps \<lparr>Evaluations = 7 :: uint, Rejections = 1, Steps = 1\<rparr>) \<le>
        unat (Evaluations \<lparr>Evaluations = 7 :: uint, Rejections = 1, Steps = 1\<rparr>)"
    using statistics_bounds [OF underflow_run st] by simp
  with underflow_run st show ?thesis by simp
qed

text \<open>
  C8. \<open>verify\<close> tests \<open>TryStep < 0\<close>, \<open>MaxStep < 0\<close>, \<open>AbsError \<le> 0\<close> and \<open>RelError \<le> 0\<close>, and
  its messages say that the steps should be nonnegative and the tolerances positive. On
  \<^verbatim>\<open>float64\<close> the four tests are all false for NaN. With the comparisons of \<open>float64\<close> a
  configuration whose \<open>RelError\<close> is NaN violates \<open>RelError > 0\<close>, and New accepts it.
\<close>

theorem New_accepts_NaN:
  "\<not> 0 < RelError nan_config \<and> verify nan_config = None \<and>
   New nan_config = Inr \<lparr>config = nan_config\<rparr>"
  by (simp add: New_def verify_def nan_config_def zero_float64_def less_float64_def
      less_eq_float64_def)

section \<open>The output of the fixed mode\<close>

text \<open>
  C6. In the fixed mode (more than two grid points) a call that returns without error
  returns the grid it was given and a solution of \<open>length xs\<close> rows of \<open>length y0\<close> values.
  When a step that starts with the variables \<open>v\<close> is accepted with the variables \<open>a\<close>
  (so \<open>var_x a\<close>, \<open>var_y a\<close> are the start of the step and \<open>var_xnew a = var_x a + var_h a\<close>,
  \<open>var_ynew a\<close> its end), the output loop moves the cursor from \<open>var_nc a\<close> over the grid
  points that are not beyond \<open>var_xnew a\<close>; the row of each of them is \<open>var_ynew a\<close> itself
  when the grid point equals \<open>var_xnew a\<close>, and the value of \<open>interpolate\<close> otherwise; all
  other rows stay as they were.
\<close>

theorem fixed_output:
  "(ComputeWithStats E self dydx s0 y0 xs = Some (Returns r) \<longrightarrow> ret_err r = None \<longrightarrow>
      2 < length xs \<longrightarrow>
      ret_xs r = Some xs \<and> (\<exists>ys. ret_ys r = Some ys \<and> length ys = length xs * length y0)) \<and>
   (attempts C (begin_step C v) = Some (Inr a) \<longrightarrow> shaped C v \<longrightarrow> c_fixed C \<longrightarrow>
      var_x a = var_x v \<and> var_y a = var_y v \<and> var_xnew a = var_x a + var_h a \<and>
      var_nc a \<le> var_nc (emit C a) \<and> var_nc (emit C a) \<le> c_nx C \<and>
      (\<forall>k. row (c_nd C) (var_ys (emit C a)) k =
         (if var_nc a \<le> k \<and> k < var_nc (emit C a)
          then (if feq (c_arith C) (var_xs a ! k) (var_xnew a) then var_ynew a
                else interpolate (c_arith C) (var_x a) (var_y a) (flat (var_f a)) (var_h a)
                       (var_xs a ! k))
          else row (c_nd C) (var_ys a) k)) \<and>
      (\<forall>k. var_nc a \<le> k \<and> k < var_nc (emit C a) \<longrightarrow> \<not> var_xnew a - var_xs a ! k < 0) \<and>
      (var_nc (emit C a) < c_nx C \<longrightarrow> var_xnew a - var_xs a ! var_nc (emit C a) < 0))"
proof (intro conjI impI)
  assume run: "ComputeWithStats E self dydx s0 y0 xs = Some (Returns r)"
    and ok: "ret_err r = None" and fixed: "2 < length xs"
  obtain C' v' where p: "prepare E self dydx s0 y0 xs = (C', v')"
    by (cases "prepare E self dydx s0 y0 xs")
  from ComputeWithStats_steps [OF run] p have st: "steps C' v' = Some r"
    by simp
  from prepare_fixed [OF fixed p] steps_fixed [OF st _ _ ok]
  show "ret_xs r = Some xs"
    and "\<exists>ys. ret_ys r = Some ys \<and> length ys = length xs * length y0"
    by simp_all
next
  assume acc: "attempts C (begin_step C v) = Some (Inr a)" and sv: "shaped C v"
    and fixed: "c_fixed C"
  from attempts_endpoint [OF acc]
  show "var_x a = var_x v" and "var_y a = var_y v" and "var_xnew a = var_x a + var_h a"
    by (simp_all add: begin_step_xy)
  have sa: "shaped C a"
    using attempts_shaped [OF acc shaped_begin_step [OF sv]] by simp
  note rows = fill_rows [OF sa]
  from fixed have e: "emit C a = fill C a"
    by (simp add: emit_def)
  from rows show "var_nc a \<le> var_nc (emit C a)" and "var_nc (emit C a) \<le> c_nx C"
    and "\<forall>k. var_nc a \<le> k \<and> k < var_nc (emit C a) \<longrightarrow> \<not> var_xnew a - var_xs a ! k < 0"
    by (simp_all only: e) blast+
  from rows show "var_nc (emit C a) < c_nx C \<Longrightarrow> var_xnew a - var_xs a ! var_nc (emit C a) < 0"
    by (simp only: e)
  from rows show "\<forall>k. row (c_nd C) (var_ys (emit C a)) k =
         (if var_nc a \<le> k \<and> k < var_nc (emit C a)
          then (if feq (c_arith C) (var_xs a ! k) (var_xnew a) then var_ynew a
                else interpolate (c_arith C) (var_x a) (var_y a) (flat (var_f a)) (var_h a)
                       (var_xs a ! k))
          else row (c_nd C) (var_ys a) k)"
    by (simp only: e filled_def) blast
qed


theorem fixed_output_witness:
  "ComputeWithStats exact \<lparr>config = half_config\<rparr> (jump 0 1) () [0] [1, 5 / 4, 3 / 2, 2] =
     Some (Returns fixed_result) \<and>
   ret_err fixed_result = None \<and> 2 < length [1, 5 / 4, 3 / 2, 2 :: rat] \<and>
   ret_xs fixed_result = Some [1, 5 / 4, 3 / 2, 2] \<and>
   (\<exists>ys. ret_ys fixed_result = Some ys \<and> length ys = 4) \<and>
   attempts fixed_ctx (begin_step fixed_ctx fixed_start) = Some (Inr fixed_accepted) \<and>
   shaped fixed_ctx fixed_start \<and> c_fixed fixed_ctx \<and>
   var_nc fixed_accepted = 1 \<and> var_nc (emit fixed_ctx fixed_accepted) = 3 \<and>
   var_xs fixed_accepted ! 1 = 5 / 4 \<and> var_xs fixed_accepted ! 2 = 3 / 2 \<and>
   var_xnew fixed_accepted = 3 / 2 \<and>
   row 1 (var_ys (emit fixed_ctx fixed_accepted)) 1 =
     interpolate exact 1 [0] (flat (var_f fixed_accepted)) (1 / 2) (5 / 4) \<and>
   row 1 (var_ys (emit fixed_ctx fixed_accepted)) 2 = var_ynew fixed_accepted"
proof -
  have ok: "ret_err fixed_result = None"
    by (simp add: fixed_result_def)
  have acc: "attempts fixed_ctx (begin_step fixed_ctx fixed_start) = Some (Inr fixed_accepted)"
    by (simp only: fixed_start_def fixed_accepted_def fixed_run_begin1 fixed_run_attempt1_1)
  have sh: "shaped fixed_ctx fixed_start"
    by (simp add: shaped_def fixed_ctx_def fixed_start_def)
  have fx: "c_fixed fixed_ctx"
    by (simp add: fixed_ctx_def)
  have nc: "var_nc (emit fixed_ctx fixed_accepted) = 3"
    by (simp only: fixed_accepted_def fixed_run_emit1) simp
  note whole = fixed_output [where E = exact and self = "\<lparr>config = half_config\<rparr>"
      and dydx = "jump 0 1" and ?s0.0 = "()" and ?y0.0 = "[0]" and xs = "[1, 5 / 4, 3 / 2, 2]"
      and r = fixed_result and C = fixed_ctx and v = fixed_start and a = fixed_accepted]
  from whole fixed_run ok have first:
    "ret_xs fixed_result = Some [1, 5 / 4, 3 / 2, 2] \<and>
     (\<exists>ys. ret_ys fixed_result = Some ys \<and> length ys = 4)"
    by (simp add: numeral_eq_Suc)
  from whole acc sh fx have rows:
    "\<forall>k. row (c_nd fixed_ctx) (var_ys (emit fixed_ctx fixed_accepted)) k =
       (if var_nc fixed_accepted \<le> k \<and> k < var_nc (emit fixed_ctx fixed_accepted)
        then (if feq (c_arith fixed_ctx) (var_xs fixed_accepted ! k) (var_xnew fixed_accepted)
              then var_ynew fixed_accepted
              else interpolate (c_arith fixed_ctx) (var_x fixed_accepted) (var_y fixed_accepted)
                     (flat (var_f fixed_accepted)) (var_h fixed_accepted)
                     (var_xs fixed_accepted ! k))
        else row (c_nd fixed_ctx) (var_ys fixed_accepted) k)"
    by blast
  have r1: "row 1 (var_ys (emit fixed_ctx fixed_accepted)) 1 =
      interpolate exact 1 [0] (flat (var_f fixed_accepted)) (1 / 2) (5 / 4)"
    using rows [THEN spec, of 1] by (simp add: nc) (simp add: fixed_ctx_def fixed_accepted_def exact_def)
  have r2: "row 1 (var_ys (emit fixed_ctx fixed_accepted)) 2 = var_ynew fixed_accepted"
    using rows [THEN spec, of 2] by (simp add: nc) (simp add: fixed_ctx_def fixed_accepted_def exact_def)
  have misc: "var_nc fixed_accepted = 1" "var_xs fixed_accepted ! 1 = 5 / 4"
    "var_xs fixed_accepted ! 2 = 3 / 2" "var_xnew fixed_accepted = 3 / 2"
    by (simp_all add: fixed_accepted_def)
  from fixed_run ok first acc sh fx nc misc r1 r2 show ?thesis
    by simp
qed

section \<open>Claims about the step size\<close>

text \<open>
  C3, as the code has it. After an accepted step that does not end the integration the
  code moves to the new point, and it computes a new step size only when the step was
  accepted at its first trial (\<^verbatim>\<open>if rejected { continue }\<close>): then
  \<open>scale = 1.25 * (\<epsilon> / RelError) ^ (1 / 5)\<close>, and \<open>h\<close> becomes \<open>h / scale\<close> if \<open>scale > 0.2\<close>
  and \<open>5 * h\<close> otherwise. When a trial of the step has been rejected, the next step starts
  from the size \<open>h\<close> of the accepted trial as it is. In \<open>free_run\<close> the first step is
  accepted after rejections at \<open>h = 15785253 / 335544320\<close> with \<open>scale\<close> above \<open>0.2\<close>, and the
  next step starts from the same \<open>h\<close>, not from \<open>h / scale\<close>. Below, \<open>v\<close> are the variables
  when the step starts and \<open>a\<close> the variables when its trial is accepted; the step has had
  a rejected trial exactly when its first trial was rejected.
\<close>

theorem next_step_size_counterexample:
  "prepare exact \<lparr>config = sample_config\<rparr> (jump 1 10) () [0] [1, 2] = (free_ctx, free_start) \<and>
   attempts free_ctx (begin_step free_ctx free_start) = Some (Inr free_accepted) \<and>
   \<not> var_done (emit free_ctx free_accepted) \<and>
   var_h free_accepted = 15785253 / 335544320 \<and>
   var_eps free_accepted = 124528107 / 214748364800 \<and>
   c_relerr free_ctx = 1 / 1000 \<and>
   lit exact (5 / 4) * math_Pow exact (var_eps free_accepted / c_relerr free_ctx) (power exact) =
     75224165 / 67108864 \<and>
   var_h (advance free_ctx (emit free_ctx free_accepted)) = 15785253 / 335544320 \<and>
   var_h free_accepted /
     (lit exact (5 / 4) * math_Pow exact (var_eps free_accepted / c_relerr free_ctx) (power exact)) \<noteq>
     15785253 / 335544320"
proof -
  have h: "var_h free_accepted = 15785253 / 335544320"
    and e: "var_eps free_accepted = 124528107 / 214748364800"
    and r: "var_rejected free_accepted"
    by (simp_all add: free_accepted_def)
  have c: "c_relerr free_ctx = 1 / 1000"
    by (simp add: free_ctx_def)
  have s: "lit exact (5 / 4) *
      math_Pow exact (var_eps free_accepted / c_relerr free_ctx) (power exact) = 75224165 / 67108864"
    by (simp only: e c) (simp add: exact_def free_first_root)
  have n: "var_h (advance free_ctx (emit free_ctx free_accepted)) = 15785253 / 335544320"
    by (simp add: advance_step emit_keeps2 r h)
  have d: "var_h free_accepted /
      (lit exact (5 / 4) *
         math_Pow exact (var_eps free_accepted / c_relerr free_ctx) (power exact)) \<noteq>
      15785253 / 335544320"
    by (simp only: s h) simp
  from free_prepare free_first_step free_first_emit h e c s n d show ?thesis
    by blast
qed

theorem next_step_size:
  assumes "attempts C (begin_step C v) = Some (Inr a)" and "\<not> var_done (emit C a)"
  shows "steps C v = steps C (advance C (emit C a)) \<and>
         var_rejected a = (\<not> var_eps (estimate C (begin_step C v)) \<le> c_relerr C) \<and>
         var_x (advance C (emit C a)) = var_xnew a \<and>
         var_h (advance C (emit C a)) =
           (if var_rejected a then var_h a
            else if lit (c_arith C) (1 / 5) <
                      lit (c_arith C) (5 / 4) *
                        math_Pow (c_arith C) (var_eps a / c_relerr C) (power (c_arith C))
                 then var_h a /
                        (lit (c_arith C) (5 / 4) *
                           math_Pow (c_arith C) (var_eps a / c_relerr C) (power (c_arith C)))
                 else lit (c_arith C) 5 * var_h a)"
  using steps_continue [OF assms] accepted_rejected [OF assms(1)]
  by (simp only: advance_step emit_keeps2)

theorem next_step_size_witness:
  "attempts free_ctx (begin_step free_ctx free_start) = Some (Inr free_accepted) \<and>
   \<not> var_done (emit free_ctx free_accepted) \<and>
   steps free_ctx free_start = steps free_ctx (advance free_ctx (emit free_ctx free_accepted)) \<and>
   var_rejected free_accepted \<and>
   \<not> var_eps (estimate free_ctx (begin_step free_ctx free_start)) \<le> c_relerr free_ctx \<and>
   var_x (advance free_ctx (emit free_ctx free_accepted)) = var_xnew free_accepted \<and>
   var_h (advance free_ctx (emit free_ctx free_accepted)) = var_h free_accepted"
proof -
  have r: "var_rejected free_accepted"
    by (simp add: free_accepted_def)
  from next_step_size [OF free_first_step free_first_emit] r free_first_step free_first_emit
  show ?thesis
    by simp
qed




text \<open>
  C7. The limit \<open>hmax\<close> is the configured \<open>MaxStep\<close>, or \<open>0.1 * (xend - x0)\<close> when \<open>MaxStep\<close> is
  zero. The first trial size is the configured \<open>TryStep\<close> unless that is zero; then it is
  derived: \<open>h\<close> is the smaller of \<open>xs[1] - x0\<close> and \<open>hmax\<close>, and with \<open>scale'\<close> the largest over
  the components of \<open>|f1[i] / max(|y0[i]|, AbsError / RelError)|\<close>, divided by
  \<open>0.8 * RelError ^ (1 / 5)\<close>, \<open>h\<close> is replaced by \<open>1 / scale'\<close> when \<open>h * scale' > 1\<close>. Here \<open>y0\<close>
  is the initial state and \<open>f1\<close> what the evaluator writes for it at \<open>x0 = xs[0]\<close>. The
  smaller, the larger and the absolute value are taken by the comparisons of the code
  (\<open>fmin\<close>, \<open>fmax\<close>, \<open>fabs\<close>, the largest starting from 0); on an ordered field they are
  \<open>min\<close>, \<open>max\<close> and \<open>|\<cdot>|\<close>, and the largest over \<open>n > 0\<close> components is the maximum of
  \<open>|f1[i]| / max(|y0[i]|, AbsError / RelError)\<close>.
\<close>

theorem initial_step_size:
  "max_step E cfg x xend =
     (if feq E (MaxStep cfg) 0 then lit E (1 / 10) * (xend - x) else MaxStep cfg) \<and>
   initial_step E cfg xs x hmax y f threshold relerr nd =
     (if feq E (TryStep cfg) 0 then
        (let h = fmin (xs ! 1 - x) hmax;
             scale = fold (\<lambda>i s. fmax s (fabs (f ! i / fmax (fabs (y ! i)) threshold)))
                       [0..<nd] 0 /
                     (lit E (4 / 5) * math_Pow E relerr (power E))
         in if 1 < h * scale then 1 / scale else h)
      else TryStep cfg) \<and>
   var_h (snd (prepare E self dydx s0 y0 xs)) =
     initial_step E (config self) xs (xs ! 0)
       (max_step E (config self) (xs ! 0) (xs ! (length xs - 1))) y0
       (fst (call dydx s0 (xs ! 0) y0 (replicate (length y0) 0)))
       (AbsError (config self) / RelError (config self)) (RelError (config self)) (length y0) \<and>
   c_hmax (fst (prepare E self dydx s0 y0 xs)) =
     max_step E (config self) (xs ! 0) (xs ! (length xs - 1)) \<and>
   (0 < n \<longrightarrow>
      fold (\<lambda>i s. fmax s (fabs (g ! i / fmax (fabs (z ! i)) t))) [0..<n] 0 =
      Max ((\<lambda>i. \<bar>g ! i\<bar> / max \<bar>z ! i\<bar> (t :: 'a :: linordered_field)) ` {..<n})) \<and>
   fmin p q = min p (q :: 'o :: linorder)"
  using first_scale [of n g z t]
  by (simp only: max_step_unfold [symmetric] initial_step_unfold [symmetric] prepare_h
      prepare_fields fmin_min) simp

theorem initial_step_size_witness:
  "(0 :: nat) < 1 \<and>
   fold (\<lambda>i s. fmax s (fabs ([10 :: rat] ! i / fmax (fabs ([0] ! i)) 1))) [0..<1] 0 = 10 \<and>
   Max ((\<lambda>i. \<bar>[10 :: rat] ! i\<bar> / max \<bar>[0] ! i\<bar> 1) ` {..<1}) = 10 \<and>
   max_step exact (sample_config\<lparr>MaxStep := 0\<rparr>) 1 2 = 1 / 10 \<and>
   initial_step exact (sample_config\<lparr>TryStep := 0\<rparr>) [1, 2] 1 1 [0] [10] 1 (1 / 1000) 1 =
     2107123 / 104857600"
proof -
  note t = initial_step_size [where n = 1 and g = "[10 :: rat]" and z = "[0]" and t = 1
      and E = exact and cfg = "sample_config\<lparr>TryStep := 0\<rparr>" and xs = "[1, 2]" and x = 1
      and hmax = 1 and y = "[0]" and f = "[10]" and threshold = 1 and relerr = "1 / 1000"
      and nd = 1 and xend = 2 and self = "\<lparr>config = sample_config\<rparr>" and dydx = "jump 1 10"
      and ?s0.0 = "()" and ?y0.0 = "[0]" and p = "0 :: rat" and q = 0]
  have m: "Max ((\<lambda>i. \<bar>[10 :: rat] ! i\<bar> / max \<bar>[0] ! i\<bar> 1) ` {..<1}) = 10"
    by (simp add: lessThan_Suc)
  have s: "max_step exact (sample_config\<lparr>MaxStep := 0\<rparr>) 1 2 = 1 / 10"
    by (simp add: max_step_def exact_def sample_config_def)
  from t have f: "fold (\<lambda>i s. fmax s (fabs ([10 :: rat] ! i / fmax (fabs ([0] ! i)) 1))) [0..<1] 0 =
      Max ((\<lambda>i. \<bar>[10 :: rat] ! i\<bar> / max \<bar>[0] ! i\<bar> 1) ` {..<1})"
    by simp
  from t have "initial_step exact (sample_config\<lparr>TryStep := 0\<rparr>) [1, 2] 1 1 [0] [10] 1 (1 / 1000) 1 =
     (if feq exact (TryStep (sample_config\<lparr>TryStep := 0\<rparr>)) 0 then
        (let h = fmin ([1, 2] ! 1 - 1) 1;
             scale = fold (\<lambda>i s. fmax s (fabs ([10 :: rat] ! i / fmax (fabs ([0] ! i)) 1)))
                       [0..<1] 0 /
                     (lit exact (4 / 5) * math_Pow exact (1 / 1000) (power exact))
         in if 1 < h * scale then 1 / scale else h)
      else TryStep (sample_config\<lparr>TryStep := 0\<rparr>))"
    by blast
  then have i: "initial_step exact (sample_config\<lparr>TryStep := 0\<rparr>) [1, 2] 1 1 [0] [10] 1 (1 / 1000) 1 =
     2107123 / 104857600"
    by (simp only: f m) (simp add: exact_def sample_config_def fmin_def root5_relerr Let_def)
  from f m s i show ?thesis
    by simp
qed

section \<open>The claim about the error of a trial\<close>



end
